theory Spec2Isabelle
  imports Main "HOL-Library.AList"
begin

section \<open>Values exchanged with the service\<close>

text \<open>
  The SDK is dynamically typed: every payload, response and stream event is whatever
  \<^verbatim>\<open>json.loads\<close> returns. Strings are byte strings (UTF-8), a Python \<^verbatim>\<open>dict\<close> is an
  association list with unique keys (\<open>map_of\<close> reads it, \<open>AList.update\<close> writes it, as
  Python keeps the position of a key that is assigned again), and Python's \<^verbatim>\<open>None\<close> is
  \<open>JNull\<close>. A number with a fraction or an exponent is kept as sign, decimal mantissa and
  decimal exponent; the SDK only ever tests such a number for truth.
\<close>

datatype json =
    JNull
  | JBool bool
  | JInt int
  | JFloat bool nat int
  | JNaN
  | JInfinity bool
  | JStr string
  | JArr "json list"
  | JObj "(string \<times> json) list"

datatype error =
    JSONDecodeError
  | AttributeError
  | KeyError
  | TypeError
  | ValueError
  | RuntimeError
  | HTTPStatusError
  | TransportError

subsection \<open>The decoder behind \<^verbatim>\<open>json.loads\<close>\<close>

text \<open>
  \<^verbatim>\<open>json.loads\<close> belongs to the Python library. The functions of the SDK below take the
  decoder as a parameter \<open>loads\<close>, with \<open>None\<close> for a raised \<^verbatim>\<open>JSONDecodeError\<close>. The
  decoder \<open>json_loads\<close> defined here instantiates it on concrete frames: a lexer and a
  pushdown recogniser for the JSON grammar as Python reads it (white space is blank, tab,
  line feed and carriage return; control characters are refused inside strings; the
  constants \<^verbatim>\<open>NaN\<close>, \<^verbatim>\<open>Infinity\<close> and \<^verbatim>\<open>-Infinity\<close> are accepted; a key given twice keeps
  its last value).
\<close>

definition dq :: char where
  "dq = CHR 0x22"

definition is_ws :: "char \<Rightarrow> bool" where
  "is_ws c = (c = CHR '' '' \<or> c = CHR 0x09 \<or> c = CHR 0x0A \<or> c = CHR 0x0D)"

definition is_digit :: "char \<Rightarrow> bool" where
  "is_digit c = (c \<in> set ''0123456789'')"

definition digit_val :: "char \<Rightarrow> nat" where
  "digit_val c = of_char c - 48"

definition nat_of_digits :: "string \<Rightarrow> nat" where
  "nat_of_digits ds = foldl (\<lambda>a c. 10 * a + digit_val c) 0 ds"

definition hex_val :: "char \<Rightarrow> nat option" where
  "hex_val c =
     (if is_digit c then Some (digit_val c)
      else if c \<in> set ''abcdef'' then Some (of_char c - 87)
      else if c \<in> set ''ABCDEF'' then Some (of_char c - 55)
      else None)"

definition simple_escape :: "char \<Rightarrow> char option" where
  "simple_escape c =
     (if c = dq then Some dq
      else if c = CHR 0x5C then Some (CHR 0x5C)
      else if c = CHR ''/'' then Some (CHR ''/'')
      else if c = CHR ''b'' then Some (CHR 0x08)
      else if c = CHR ''f'' then Some (CHR 0x0C)
      else if c = CHR ''n'' then Some (CHR 0x0A)
      else if c = CHR ''r'' then Some (CHR 0x0D)
      else if c = CHR ''t'' then Some (CHR 0x09)
      else None)"

definition utf8 :: "nat \<Rightarrow> string" where
  "utf8 n =
     (if n < 0x80 then [char_of n]
      else if n < 0x800 then [char_of (0xC0 + n div 64), char_of (0x80 + n mod 64)]
      else if n < 0x10000 then
        [char_of (0xE0 + n div 4096), char_of (0x80 + n div 64 mod 64), char_of (0x80 + n mod 64)]
      else
        [char_of (0xF0 + n div 262144), char_of (0x80 + n div 4096 mod 64),
         char_of (0x80 + n div 64 mod 64), char_of (0x80 + n mod 64)])"

definition is_high :: "nat \<Rightarrow> bool" where
  "is_high n = (0xD800 \<le> n \<and> n \<le> 0xDBFF)"

definition is_low :: "nat \<Rightarrow> bool" where
  "is_low n = (0xDC00 \<le> n \<and> n \<le> 0xDFFF)"

definition pair_up :: "nat \<Rightarrow> nat \<Rightarrow> nat" where
  "pair_up hi lo = 0x10000 + ((hi - 0xD800) * 1024 + (lo - 0xDC00))"

definition flush :: "nat option \<Rightarrow> string" where
  "flush hs = (case hs of None \<Rightarrow> [] | Some hi \<Rightarrow> utf8 hi)"

datatype smode = Plain | Esc | Hex nat nat

text \<open>
  The body of a string literal, read after its opening quote: the decoded string and the
  text after the closing quote. \<open>hs\<close> is a high surrogate read from a \<^verbatim>\<open>\u\<close> escape that
  still waits for its low half.
\<close>

fun lex_string :: "smode \<Rightarrow> nat option \<Rightarrow> string \<Rightarrow> string \<Rightarrow> (string \<times> string) option" where
  "lex_string m hs acc [] = None"
| "lex_string m hs acc (c # cs) =
     (case m of
        Plain \<Rightarrow>
          if c = dq then Some (acc @ flush hs, cs)
          else if c = CHR 0x5C then lex_string Esc hs acc cs
          else if (of_char c :: nat) < 32 then None
          else lex_string Plain None (acc @ flush hs @ [c]) cs
      | Esc \<Rightarrow>
          if c = CHR ''u'' then lex_string (Hex 4 0) hs acc cs
          else (case simple_escape c of
                  None \<Rightarrow> None
                | Some d \<Rightarrow> lex_string Plain None (acc @ flush hs @ [d]) cs)
      | Hex k v \<Rightarrow>
          (case hex_val c of
             None \<Rightarrow> None
           | Some h \<Rightarrow>
               if 1 < k then lex_string (Hex (k - 1) (16 * v + h)) hs acc cs
               else (case hs of
                       None \<Rightarrow>
                         if is_high (16 * v + h) then lex_string Plain (Some (16 * v + h)) acc cs
                         else lex_string Plain None (acc @ utf8 (16 * v + h)) cs
                     | Some hi \<Rightarrow>
                         if is_low (16 * v + h)
                         then lex_string Plain None (acc @ utf8 (pair_up hi (16 * v + h))) cs
                         else if is_high (16 * v + h)
                         then lex_string Plain (Some (16 * v + h)) (acc @ utf8 hi) cs
                         else lex_string Plain None (acc @ utf8 hi @ utf8 (16 * v + h)) cs)))"

text \<open>
  A number, by Python's pattern \<^verbatim>\<open>-?(0|[1-9][0-9]*)(\.[0-9]+)?([eE][-+]?[0-9]+)?\<close>: the
  longest match, an \<^verbatim>\<open>int\<close> when it has neither fraction nor exponent.
\<close>

definition int_part :: "string \<Rightarrow> string" where
  "int_part s = (case s of [] \<Rightarrow> [] | c # r \<Rightarrow> if c = CHR ''0'' then [c] else takeWhile is_digit s)"

definition frac_part :: "string \<Rightarrow> string" where
  "frac_part s =
     (case s of
        [] \<Rightarrow> []
      | c # r \<Rightarrow> if c = CHR ''.'' \<and> takeWhile is_digit r \<noteq> [] then c # takeWhile is_digit r else [])"

definition exp_part :: "string \<Rightarrow> string" where
  "exp_part s =
     (case s of
        [] \<Rightarrow> []
      | c # r \<Rightarrow>
          if c = CHR ''e'' \<or> c = CHR ''E'' then
            (case r of
               [] \<Rightarrow> []
             | d # r' \<Rightarrow>
                 if (d = CHR ''+'' \<or> d = CHR ''-'') \<and> takeWhile is_digit r' \<noteq> []
                 then c # d # takeWhile is_digit r'
                 else if takeWhile is_digit r \<noteq> [] then c # takeWhile is_digit r
                 else [])
          else [])"

definition exp_val :: "string \<Rightarrow> int" where
  "exp_val e =
     (case e of
        [] \<Rightarrow> 0
      | c # r \<Rightarrow>
          (case r of
             [] \<Rightarrow> 0
           | d # r' \<Rightarrow>
               if d = CHR ''-'' then - int (nat_of_digits r')
               else if d = CHR ''+'' then int (nat_of_digits r')
               else int (nat_of_digits r)))"

definition lex_number :: "string \<Rightarrow> (json \<times> string) option" where
  "lex_number s =
     (let neg = (take 1 s = ''-'');
          s1 = (if neg then drop 1 s else s);
          ip = int_part s1;
          s2 = drop (length ip) s1;
          fp = frac_part s2;
          s3 = drop (length fp) s2;
          ep = exp_part s3;
          s4 = drop (length ep) s3
      in if ip = [] then None
         else if fp = [] \<and> ep = []
         then Some (JInt (if neg then - int (nat_of_digits ip) else int (nat_of_digits ip)), s4)
         else Some (JFloat neg (nat_of_digits (ip @ drop 1 fp))
                      (exp_val ep - int (length (drop 1 fp))), s4))"

definition lex_constant :: "string \<Rightarrow> (json \<times> string) option" where
  "lex_constant s =
     (if take 4 s = ''null'' then Some (JNull, drop 4 s)
      else if take 4 s = ''true'' then Some (JBool True, drop 4 s)
      else if take 5 s = ''false'' then Some (JBool False, drop 5 s)
      else if take 3 s = ''NaN'' then Some (JNaN, drop 3 s)
      else if take 8 s = ''Infinity'' then Some (JInfinity False, drop 8 s)
      else if take 9 s = ''-Infinity'' then Some (JInfinity True, drop 9 s)
      else None)"

text \<open>A scalar: a string, a constant or a number, with the text that follows it.\<close>

definition lex_scalar :: "string \<Rightarrow> (json \<times> string) option" where
  "lex_scalar s =
     (case s of
        [] \<Rightarrow> None
      | c # cs \<Rightarrow>
          if c = dq then
            (case lex_string Plain None [] cs of
               None \<Rightarrow> None
             | Some (str, rest) \<Rightarrow> Some (JStr str, rest))
          else (case lex_constant s of
                  Some r \<Rightarrow> Some r
                | None \<Rightarrow> lex_number s))"

datatype token = TLBrace | TRBrace | TLBracket | TRBracket | TColon | TComma | TScalar json

definition punct :: "char \<Rightarrow> token option" where
  "punct c =
     (if c = CHR ''{'' then Some TLBrace
      else if c = CHR ''}'' then Some TRBrace
      else if c = CHR ''['' then Some TLBracket
      else if c = CHR '']'' then Some TRBracket
      else if c = CHR '':'' then Some TColon
      else if c = CHR '','' then Some TComma
      else None)"

lemma lex_string_shorter:
  "lex_string m hs acc s = Some (str, rest) \<Longrightarrow> length rest < length s"
proof (induction m hs acc s rule: lex_string.induct)
  case (1 m hs acc)
  then show ?case by simp
next
  case (2 m hs acc c cs)
  show ?case
  proof (cases m)
    case Plain
    with 2 show ?thesis by (auto split: if_splits simp: less_Suc_eq)
  next
    case Esc
    with 2 show ?thesis by (auto split: if_splits option.splits simp: less_Suc_eq)
  next
    case (Hex k v)
    with 2 show ?thesis by (auto split: if_splits option.splits simp: less_Suc_eq)
  qed
qed

lemma lex_number_shorter:
  assumes "lex_number s = Some (v, rest)"
  shows "length rest < length s"
proof -
  have ip: "int_part (if take 1 s = ''-'' then drop 1 s else s) \<noteq> []"
    using assms by (auto simp: lex_number_def Let_def split: if_splits)
  have len: "length (int_part t) \<le> length t" for t
    by (cases t) (auto simp: int_part_def length_takeWhile_le)
  have rest: "length rest \<le> length (if take 1 s = ''-'' then drop 1 s else s)
                - length (int_part (if take 1 s = ''-'' then drop 1 s else s))"
    using assms by (auto simp: lex_number_def Let_def split: if_splits)
  have "0 < length (int_part (if take 1 s = ''-'' then drop 1 s else s))"
    using ip by simp
  moreover have "length (if take 1 s = ''-'' then drop 1 s else s) \<le> length s"
    by simp
  ultimately show ?thesis
    using rest len [of "if take 1 s = ''-'' then drop 1 s else s"] by linarith
qed

lemma lex_constant_shorter:
  "lex_constant s = Some (v, rest) \<Longrightarrow> length rest < length s"
  by (cases s) (auto simp: lex_constant_def split: if_splits)

lemma lex_scalar_shorter:
  "lex_scalar s = Some (v, rest) \<Longrightarrow> length rest < length s"
  by (cases s)
     (auto simp: lex_scalar_def less_Suc_eq
           split: if_splits option.splits
           dest: lex_string_shorter lex_constant_shorter lex_number_shorter)

function lex :: "string \<Rightarrow> token list option" where
  "lex [] = Some []"
| "lex (c # cs) =
     (if is_ws c then lex cs
      else (case punct c of
              Some t \<Rightarrow> map_option (Cons t) (lex cs)
            | None \<Rightarrow>
                (case lex_scalar (c # cs) of
                   None \<Rightarrow> None
                 | Some (v, rest) \<Rightarrow> map_option (Cons (TScalar v)) (lex rest))))"
  by pat_completeness auto
termination
  by (relation "measure length") (auto dest: lex_scalar_shorter)

text \<open>
  The recogniser keeps a stack of the containers that are still open: an array with its
  items so far, an object with its members so far and the key that waits for its value.
\<close>

datatype frame = ArrF "json list" | ObjF "(string \<times> json) list" "string option"

datatype phase =
    WantValue
  | WantValueOrClose
  | WantKey
  | WantKeyOrClose
  | WantColon
  | WantCommaOrClose
  | Finished json

fun close_value :: "json \<Rightarrow> frame list \<Rightarrow> (phase \<times> frame list) option" where
  "close_value v [] = Some (Finished v, [])"
| "close_value v (ArrF items # st) = Some (WantCommaOrClose, ArrF (items @ [v]) # st)"
| "close_value v (ObjF ms (Some k) # st) =
     Some (WantCommaOrClose, ObjF (AList.update k v ms) None # st)"
| "close_value v (ObjF ms None # st) = None"

fun close_array :: "frame list \<Rightarrow> (phase \<times> frame list) option" where
  "close_array (ArrF items # st) = close_value (JArr items) st"
| "close_array _ = None"

fun close_object :: "frame list \<Rightarrow> (phase \<times> frame list) option" where
  "close_object (ObjF ms None # st) = close_value (JObj ms) st"
| "close_object _ = None"

fun take_key :: "string \<Rightarrow> frame list \<Rightarrow> (phase \<times> frame list) option" where
  "take_key k (ObjF ms None # st) = Some (WantColon, ObjF ms (Some k) # st)"
| "take_key k _ = None"

fun after_comma :: "frame list \<Rightarrow> (phase \<times> frame list) option" where
  "after_comma (ArrF items # st) = Some (WantValue, ArrF items # st)"
| "after_comma (ObjF ms k # st) = Some (WantKey, ObjF ms k # st)"
| "after_comma [] = None"

fun start_value :: "token \<Rightarrow> frame list \<Rightarrow> (phase \<times> frame list) option" where
  "start_value (TScalar v) st = close_value v st"
| "start_value TLBracket st = Some (WantValueOrClose, ArrF [] # st)"
| "start_value TLBrace st = Some (WantKeyOrClose, ObjF [] None # st)"
| "start_value _ st = None"

fun step :: "phase \<Rightarrow> frame list \<Rightarrow> token \<Rightarrow> (phase \<times> frame list) option" where
  "step WantValue st t = start_value t st"
| "step WantValueOrClose st t = (if t = TRBracket then close_array st else start_value t st)"
| "step WantKey st t = (case t of TScalar (JStr k) \<Rightarrow> take_key k st | _ \<Rightarrow> None)"
| "step WantKeyOrClose st t =
     (case t of TScalar (JStr k) \<Rightarrow> take_key k st | TRBrace \<Rightarrow> close_object st | _ \<Rightarrow> None)"
| "step WantColon st t = (if t = TColon then Some (WantValue, st) else None)"
| "step WantCommaOrClose st t =
     (case t of
        TComma \<Rightarrow> after_comma st
      | TRBracket \<Rightarrow> close_array st
      | TRBrace \<Rightarrow> close_object st
      | _ \<Rightarrow> None)"
| "step (Finished v) st t = None"

fun parse_tokens :: "phase \<Rightarrow> frame list \<Rightarrow> token list \<Rightarrow> json option" where
  "parse_tokens ph st [] = (case ph of Finished v \<Rightarrow> (if st = [] then Some v else None) | _ \<Rightarrow> None)"
| "parse_tokens ph st (t # ts) =
     (case step ph st t of
        None \<Rightarrow> None
      | Some (ph', st') \<Rightarrow> parse_tokens ph' st' ts)"

definition json_loads :: "string \<Rightarrow> json option" where
  "json_loads s = (case lex s of None \<Rightarrow> None | Some ts \<Rightarrow> parse_tokens WantValue [] ts)"

subsection \<open>Python's operations on decoded values\<close>

text \<open>
  \<^verbatim>\<open>obj.get(key, default)\<close>, \<^verbatim>\<open>obj[key]\<close>, \<^verbatim>\<open>x in {'a', 'b'}\<close> and the truth test, on whatever
  value arrived. Only a \<^verbatim>\<open>dict\<close> has \<^verbatim>\<open>get\<close>; a list or a dict cannot be hashed, so the
  membership test in a set raises on them. A float is false when it is zero, which
  includes a literal that rounds to zero (at most \<open>2 ^ -1075\<close>).
\<close>

fun py_get :: "json \<Rightarrow> string \<Rightarrow> json \<Rightarrow> error + json" where
  "py_get (JObj d) k dflt = Inr (case map_of d k of None \<Rightarrow> dflt | Some v \<Rightarrow> v)"
| "py_get _ k dflt = Inl AttributeError"

fun py_item :: "json \<Rightarrow> string \<Rightarrow> error + json" where
  "py_item (JObj d) k = (case map_of d k of None \<Rightarrow> Inl KeyError | Some v \<Rightarrow> Inr v)"
| "py_item _ k = Inl TypeError"

fun py_in :: "json \<Rightarrow> string list \<Rightarrow> error + bool" where
  "py_in (JStr s) xs = Inr (s \<in> set xs)"
| "py_in (JArr vs) xs = Inl TypeError"
| "py_in (JObj d) xs = Inl TypeError"
| "py_in _ xs = Inr False"

fun py_truthy :: "json \<Rightarrow> bool" where
  "py_truthy JNull = False"
| "py_truthy (JBool b) = b"
| "py_truthy (JInt n) = (n \<noteq> 0)"
| "py_truthy (JFloat neg m e) = (m \<noteq> 0 \<and> (0 \<le> e \<or> 10 ^ nat (- e) < m * 2 ^ 1075))"
| "py_truthy JNaN = True"
| "py_truthy (JInfinity neg) = True"
| "py_truthy (JStr s) = (s \<noteq> [])"
| "py_truthy (JArr vs) = (vs \<noteq> [])"
| "py_truthy (JObj d) = (d \<noteq> [])"

text \<open>\<^verbatim>\<open>str.rstrip('/')\<close>, \<^verbatim>\<open>str.lower()\<close> on ASCII letters, and \<^verbatim>\<open>str(n)\<close> of a port number.\<close>

definition rstrip_slash :: "string \<Rightarrow> string" where
  "rstrip_slash s = rev (dropWhile (\<lambda>c. c = CHR ''/'') (rev s))"

definition lower_char :: "char \<Rightarrow> char" where
  "lower_char c =
     (case map_of (zip ''ABCDEFGHIJKLMNOPQRSTUVWXYZ'' ''abcdefghijklmnopqrstuvwxyz'') c of
        None \<Rightarrow> c
      | Some l \<Rightarrow> l)"

definition lower :: "string \<Rightarrow> string" where
  "lower s = map lower_char s"

fun str_nat :: "nat \<Rightarrow> string" where
  "str_nat n = (if n < 10 then [''0123456789'' ! n] else str_nat (n div 10) @ [''0123456789'' ! (n mod 10)])"

section \<open>The console client (\<^verbatim>\<open>client.py\<close>)\<close>

text \<open>
  The HTTP handle and the WebSocket class are injected objects. A handle is a value of
  any type \<open>'h\<close>; what a POST answers is a function from the request to either an
  exception or a response, of which the client reads two things: whether
  \<^verbatim>\<open>raise_for_status\<close> raises, and the body that \<^verbatim>\<open>resp.json()\<close> decodes. A WebSocket
  class is what instantiating it and connecting to a URL gives: an exception, or the
  results of the \<^verbatim>\<open>recv\<close> calls to come.
\<close>

record request =
  url :: string
  body :: json
  headers :: "(string \<times> string) list"

record response =
  status_error :: bool
  content :: string

datatype recv_result = Message string | NoMessage | RecvRaises error

record socket =
  peer :: string
  inbox :: "recv_result list"
  closed :: bool

record 'h client =
  base_url :: string
  owns_http :: bool
  http :: 'h
  websocket_class :: "(string \<Rightarrow> error + recv_result list) option"

text \<open>What \<^verbatim>\<open>httpx.URL(base)\<close> exposes of a base URL: \<^verbatim>\<open>scheme\<close>, \<^verbatim>\<open>host\<close> and \<^verbatim>\<open>port\<close>.\<close>

record url_parts =
  scheme :: string
  host :: string
  port :: "nat option"

definition client_init ::
  "(string \<Rightarrow> 'h) \<Rightarrow> (string \<Rightarrow> error + recv_result list) option \<Rightarrow> string \<Rightarrow> 'h option \<Rightarrow>
   (string \<Rightarrow> error + recv_result list) option \<Rightarrow> 'h client" where
  "client_init new_http default_ws base http_arg ws_arg =
     \<lparr>base_url = rstrip_slash base,
      owns_http = (http_arg = None),
      http = (case http_arg of None \<Rightarrow> new_http (rstrip_slash base) | Some h \<Rightarrow> h),
      websocket_class = (case ws_arg of None \<Rightarrow> default_ws | Some w \<Rightarrow> Some w)\<rparr>"

text \<open>\<^verbatim>\<open>close\<close>: the handle is closed only when the client created it.\<close>

definition close :: "('h \<Rightarrow> error + 'h) \<Rightarrow> 'h client \<Rightarrow> error + 'h client" where
  "close http_close c =
     (if owns_http c
      then (case http_close (http c) of Inl e \<Rightarrow> Inl e | Inr h \<Rightarrow> Inr (c\<lparr>http := h\<rparr>))
      else Inr c)"

text \<open>
  \<^verbatim>\<open>_post\<close> and \<^verbatim>\<open>chat\<close>: the request is sent, \<^verbatim>\<open>raise_for_status\<close> is called and the
  decoded body of the answer is returned as it is.
\<close>

definition receive ::
  "(string \<Rightarrow> json option) \<Rightarrow> (request \<Rightarrow> error + response) \<Rightarrow> request \<Rightarrow> error + json" where
  "receive loads send rq =
     (case send rq of
        Inl e \<Rightarrow> Inl e
      | Inr resp \<Rightarrow>
          if status_error resp then Inl HTTPStatusError
          else (case loads (content resp) of None \<Rightarrow> Inl JSONDecodeError | Some v \<Rightarrow> Inr v))"

definition post' ::
  "(string \<Rightarrow> json option) \<Rightarrow> (request \<Rightarrow> error + response) \<Rightarrow> string \<Rightarrow> json \<Rightarrow> error + json" where
  "post' loads send u payload = receive loads send \<lparr>url = u, body = payload, headers = []\<rparr>"

definition chat ::
  "(string \<Rightarrow> json option) \<Rightarrow> (request \<Rightarrow> error + response) \<Rightarrow> json \<Rightarrow> error + json" where
  "chat loads send payload = post' loads send ''/api/chat'' payload"

text \<open>\<^verbatim>\<open>_build_ws_url\<close> and \<^verbatim>\<open>open_task_stream\<close>.\<close>

definition build_ws_url :: "(string \<Rightarrow> url_parts) \<Rightarrow> 'h client \<Rightarrow> string \<Rightarrow> string" where
  "build_ws_url URL c path =
     (let base = URL (base_url c);
          scheme' = (if scheme base = ''https'' then ''wss'' else ''ws'')
      in scheme' @ ''://'' @ host base @ '':'' @
         str_nat (case port base of
                    None \<Rightarrow> if scheme' = ''wss'' then 443 else 80
                  | Some p \<Rightarrow> if p = 0 then (if scheme' = ''wss'' then 443 else 80) else p)
         @ path)"

definition target_path :: "string \<Rightarrow> bool \<Rightarrow> string option \<Rightarrow> string" where
  "target_path task_id via_gateway path =
     (case path of
        Some p \<Rightarrow>
          if p \<noteq> [] then p
          else if via_gateway then ''/v1/tasks/'' @ task_id @ ''/stream''
          else ''/api/tasks/'' @ task_id @ ''/stream''
      | None \<Rightarrow>
          if via_gateway then ''/v1/tasks/'' @ task_id @ ''/stream''
          else ''/api/tasks/'' @ task_id @ ''/stream'')"

definition open_task_stream ::
  "(string \<Rightarrow> url_parts) \<Rightarrow> 'h client \<Rightarrow> string \<Rightarrow> bool \<Rightarrow> string option \<Rightarrow> error + socket" where
  "open_task_stream URL c task_id via_gateway path =
     (case websocket_class c of
        None \<Rightarrow> Inl RuntimeError
      | Some connect \<Rightarrow>
          (case connect (build_ws_url URL c (target_path task_id via_gateway path)) of
             Inl e \<Rightarrow> Inl e
           | Inr frames \<Rightarrow>
               Inr \<lparr>peer = build_ws_url URL c (target_path task_id via_gateway path),
                    inbox = frames, closed = False\<rparr>))"

text \<open>
  \<^verbatim>\<open>iter_task_stream\<close> is a generator. One pull resumes it: it calls \<^verbatim>\<open>recv\<close>, stops on
  \<^verbatim>\<open>None\<close>, and yields \<^verbatim>\<open>json.loads(message)\<close> otherwise. An exception raised by \<^verbatim>\<open>recv\<close>
  or by the decoder leaves the generator through the pull and finishes it, as does the
  \<^verbatim>\<open>break\<close>. When no result of \<^verbatim>\<open>recv\<close> is left the call blocks: nothing times it out.
\<close>

datatype pull = Yield json | StopIteration | Raise error | Blocked

datatype gen = Suspended | Closed

definition ws_close :: "socket \<Rightarrow> socket" where
  "ws_close s = s\<lparr>closed := True\<rparr>"

fun gen_next :: "(string \<Rightarrow> json option) \<Rightarrow> gen \<Rightarrow> socket \<Rightarrow> pull \<times> gen \<times> socket" where
  "gen_next loads Closed s = (StopIteration, Closed, s)"
| "gen_next loads Suspended s =
     (case inbox s of
        [] \<Rightarrow> (Blocked, Suspended, s)
      | RecvRaises e # rest \<Rightarrow> (Raise e, Closed, s\<lparr>inbox := rest\<rparr>)
      | NoMessage # rest \<Rightarrow> (StopIteration, Closed, s\<lparr>inbox := rest\<rparr>)
      | Message m # rest \<Rightarrow>
          (case loads m of
             None \<Rightarrow> (Raise JSONDecodeError, Closed, s\<lparr>inbox := rest\<rparr>)
           | Some ev \<Rightarrow> (Yield ev, Suspended, s\<lparr>inbox := rest\<rparr>)))"

text \<open>The outcomes of the first \<open>n\<close> pulls, in order, with the state they leave.\<close>

fun pulls :: "(string \<Rightarrow> json option) \<Rightarrow> nat \<Rightarrow> gen \<Rightarrow> socket \<Rightarrow> pull list \<times> gen \<times> socket" where
  "pulls loads 0 g s = ([], g, s)"
| "pulls loads (Suc n) g s =
     (case gen_next loads g s of
        (p, g', s') \<Rightarrow> (case pulls loads n g' s' of (ps, g'', s'') \<Rightarrow> (p # ps, g'', s'')))"

text \<open>
  An instance of \<^verbatim>\<open>httpx.URL\<close> for a base of the form \<^verbatim>\<open>scheme://host[:port][/...]\<close>: the
  port is absent when none is written or when it is the default port of the scheme.
\<close>

definition default_port :: "string \<Rightarrow> nat option" where
  "default_port sch =
     map_of [(''ftp'', 21), (''http'', 80), (''https'', 443), (''ws'', 80), (''wss'', 443)] sch"

definition url_of :: "string \<Rightarrow> url_parts" where
  "url_of s =
     (let sch = takeWhile (\<lambda>c. c \<noteq> CHR '':'') s;
          authority = takeWhile (\<lambda>c. c \<noteq> CHR ''/'') (drop (length sch + 3) s);
          h = takeWhile (\<lambda>c. c \<noteq> CHR '':'') authority;
          digits = drop (length h + 1) authority
      in \<lparr>scheme = sch, host = h,
          port = (if digits = [] \<or> default_port sch = Some (nat_of_digits digits) then None
                  else Some (nat_of_digits digits))\<rparr>)"

section \<open>The example callers (\<^verbatim>\<open>chat_plan.py\<close>, \<^verbatim>\<open>live_companion.py\<close>)\<close>

text \<open>
  The test that ends the watching loop of \<^verbatim>\<open>live_companion.py\<close>:
  \<^verbatim>\<open>event.get('event') == 'status'\<close>, then \<^verbatim>\<open>event['status'].get('status')\<close> in
  \<^verbatim>\<open>{'success', 'failed'}\<close>.
\<close>

definition live_companion_terminal :: "json \<Rightarrow> error + bool" where
  "live_companion_terminal event =
     (case py_get event ''event'' JNull of
        Inl e \<Rightarrow> Inl e
      | Inr name \<Rightarrow>
          if name = JStr ''status'' then
            (case py_item event ''status'' of
               Inl e \<Rightarrow> Inl e
             | Inr st \<Rightarrow>
                 (case py_get st ''status'' JNull of
                    Inl e \<Rightarrow> Inl e
                  | Inr status \<Rightarrow> py_in status [''success'', ''failed'']))
          else Inr False)"

text \<open>
  The same test in \<^verbatim>\<open>chat_plan.py\<close>: \<^verbatim>\<open>event.get('event') == 'status' and
  event.get('status', {}).get('status') in {'success', 'failed'}\<close>.
\<close>

definition chat_plan_terminal :: "json \<Rightarrow> error + bool" where
  "chat_plan_terminal event =
     (case py_get event ''event'' JNull of
        Inl e \<Rightarrow> Inl e
      | Inr name \<Rightarrow>
          if name = JStr ''status'' then
            (case py_get event ''status'' (JObj []) of
               Inl e \<Rightarrow> Inl e
             | Inr st \<Rightarrow>
                 (case py_get st ''status'' JNull of
                    Inl e \<Rightarrow> Inl e
                  | Inr status \<Rightarrow> py_in status [''success'', ''failed'']))
          else Inr False)"

text \<open>
  The body of the loop of \<^verbatim>\<open>chat_plan.py\<close>: an overlay is printed (its source and its
  data), a terminal status breaks, anything else is passed over.
\<close>

datatype action = Printed json json | Skip | Break

definition chat_plan_body :: "json \<Rightarrow> error + action" where
  "chat_plan_body event =
     (case py_get event ''event'' JNull of
        Inl e \<Rightarrow> Inl e
      | Inr name \<Rightarrow>
          if name = JStr ''overlay'' then
            (case py_get event ''overlay'' (JObj []) of
               Inl e \<Rightarrow> Inl e
             | Inr overlay \<Rightarrow>
                 (case py_get overlay ''source'' JNull of
                    Inl e \<Rightarrow> Inl e
                  | Inr src \<Rightarrow>
                      (case py_get overlay ''data'' JNull of
                         Inl e \<Rightarrow> Inl e
                       | Inr d \<Rightarrow> Inr (Printed src d))))
          else (case chat_plan_terminal event of
                  Inl e \<Rightarrow> Inl e
                | Inr t \<Rightarrow> Inr (if t then Break else Skip)))"

datatype ending = Broke | Drained | Crashed error | Hung

record watch =
  seen :: "json list"
  printed :: "(json \<times> json) list"
  ending :: ending
  sock :: socket

lemma gen_next_yield_shorter:
  "gen_next loads g s = (Yield ev, g', s') \<Longrightarrow> length (inbox s') < length (inbox s)"
  by (cases g) (auto split: list.splits recv_result.splits option.splits)

text \<open>
  The \<^verbatim>\<open>for\<close> loop over the generator: each round pulls once and runs the body on the
  event. An exception of the body or of the pull ends the loop, as does the end of the
  iteration.
\<close>

function chat_plan_loop ::
  "(string \<Rightarrow> json option) \<Rightarrow> gen \<Rightarrow> socket \<Rightarrow> json list \<Rightarrow> (json \<times> json) list \<Rightarrow> watch" where
  "chat_plan_loop loads g s evs out =
     (case gen_next loads g s of
        (Yield ev, g', s') \<Rightarrow>
          (case chat_plan_body ev of
             Inl e \<Rightarrow> \<lparr>seen = evs @ [ev], printed = out, ending = Crashed e, sock = s'\<rparr>
           | Inr (Printed a b) \<Rightarrow> chat_plan_loop loads g' s' (evs @ [ev]) (out @ [(a, b)])
           | Inr Skip \<Rightarrow> chat_plan_loop loads g' s' (evs @ [ev]) out
           | Inr Break \<Rightarrow> \<lparr>seen = evs @ [ev], printed = out, ending = Broke, sock = s'\<rparr>)
      | (StopIteration, g', s') \<Rightarrow> \<lparr>seen = evs, printed = out, ending = Drained, sock = s'\<rparr>
      | (Raise e, g', s') \<Rightarrow> \<lparr>seen = evs, printed = out, ending = Crashed e, sock = s'\<rparr>
      | (Blocked, g', s') \<Rightarrow> \<lparr>seen = evs, printed = out, ending = Hung, sock = s'\<rparr>)"
  by pat_completeness auto
termination
  by (relation "measure (\<lambda>(loads, g, s, evs, out). length (inbox s))")
     (auto dest: gen_next_yield_shorter [OF sym])

declare chat_plan_loop.simps [simp del]

text \<open>The \<^verbatim>\<open>try ... finally: ws.close()\<close> around the loop.\<close>

definition chat_plan_watch :: "(string \<Rightarrow> json option) \<Rightarrow> socket \<Rightarrow> watch" where
  "chat_plan_watch loads s =
     (case chat_plan_loop loads Suspended s [] [] of
        w \<Rightarrow> if ending w = Hung then w else w\<lparr>sock := ws_close (sock w)\<rparr>)"

text \<open>
  The start of \<^verbatim>\<open>live_companion.py\<close>: the prompt is submitted with \<^verbatim>\<open>chat\<close>, the task id
  is read from the plan, and the script exits when there is none; otherwise it goes on
  to open the stream for that task id.
\<close>

definition planned_task_id :: "json \<Rightarrow> error + json" where
  "planned_task_id c =
     (case py_get c ''plan'' (JObj []) of
        Inl e \<Rightarrow> Inl e
      | Inr outer \<Rightarrow>
          (case py_get outer ''plan'' (JObj []) of
             Inl e \<Rightarrow> Inl e
           | Inr plan \<Rightarrow> py_get plan ''task_id'' JNull))"

datatype submitted = SystemExit string | Raised error | OpenStream json

definition live_companion_submit ::
  "(string \<Rightarrow> json option) \<Rightarrow> (request \<Rightarrow> error + response) \<Rightarrow> string \<Rightarrow> submitted" where
  "live_companion_submit loads send prompt =
     (case chat loads send
             (JObj [(''prompt'', JStr prompt), (''execute'', JBool True),
                    (''capture_context'', JBool True)]) of
        Inl e \<Rightarrow> Raised e
      | Inr c \<Rightarrow>
          (case planned_task_id c of
             Inl e \<Rightarrow> Raised e
           | Inr task_id \<Rightarrow>
               if \<not> py_truthy task_id then SystemExit ''Planner did not return a task id''
               else OpenStream task_id))"

section \<open>The gateway client (\<^verbatim>\<open>gateway.py\<close>)\<close>

record 'h gateway =
  gw_base_url :: string
  tenant_id :: string
  gw_owns_http :: bool
  gw_http :: 'h
  api_key :: "string option"
  tenant_token :: "string option"
  static_headers :: "(string \<times> string) list"

text \<open>\<^verbatim>\<open>a or b\<close> on an optional string: \<^verbatim>\<open>None\<close> and the empty string give \<^verbatim>\<open>b\<close>.\<close>

definition str_or :: "string option \<Rightarrow> string \<Rightarrow> string" where
  "str_or a b = (case a of None \<Rightarrow> b | Some t \<Rightarrow> if t = [] then b else t)"

text \<open>\<^verbatim>\<open>d.update(other)\<close>, also the unpacking \<^verbatim>\<open>{..., **other}\<close> of a dict literal.\<close>

fun dict_update :: "(string \<times> 'v) list \<Rightarrow> (string \<times> 'v) list \<Rightarrow> (string \<times> 'v) list" where
  "dict_update d [] = d"
| "dict_update d ((k, v) # kvs) = dict_update (AList.update k v d) kvs"

definition gateway_init ::
  "(string \<Rightarrow> 'h) \<Rightarrow> string \<Rightarrow> string \<Rightarrow> 'h option \<Rightarrow> string option \<Rightarrow> string option \<Rightarrow>
   (string \<times> string) list option \<Rightarrow> error + 'h gateway" where
  "gateway_init new_http tenant base http_arg key token hdrs =
     (if tenant = [] then Inl ValueError
      else Inr \<lparr>gw_base_url = rstrip_slash base,
                tenant_id = tenant,
                gw_owns_http = (http_arg = None),
                gw_http = (case http_arg of None \<Rightarrow> new_http (rstrip_slash base) | Some h \<Rightarrow> h),
                api_key = key,
                tenant_token = token,
                static_headers = (case hdrs of None \<Rightarrow> [] | Some h \<Rightarrow> h)\<rparr>)"

definition gateway_close :: "('h \<Rightarrow> error + 'h) \<Rightarrow> 'h gateway \<Rightarrow> error + 'h gateway" where
  "gateway_close http_close g =
     (if gw_owns_http g
      then (case http_close (gw_http g) of Inl e \<Rightarrow> Inl e | Inr h \<Rightarrow> Inr (g\<lparr>gw_http := h\<rparr>))
      else Inr g)"

text \<open>A method that raises leaves the object as it was: the state is returned either way.\<close>

definition set_tenant :: "'h gateway \<Rightarrow> string \<Rightarrow> error option \<times> 'h gateway" where
  "set_tenant g tenant =
     (if tenant = [] then (Some ValueError, g) else (None, g\<lparr>tenant_id := tenant\<rparr>))"

definition configure_auth :: "'h gateway \<Rightarrow> string option \<Rightarrow> string option \<Rightarrow> 'h gateway" where
  "configure_auth g key token =
     g\<lparr>api_key := (case key of None \<Rightarrow> api_key g | Some k \<Rightarrow> Some k),
       tenant_token := (case token of None \<Rightarrow> tenant_token g | Some t \<Rightarrow> Some t)\<rparr>"

definition build_headers ::
  "'h gateway \<Rightarrow> string option \<Rightarrow> (string \<times> string) list option \<Rightarrow> (string \<times> string) list" where
  "build_headers g tenant overrides =
     (let h0 = dict_update
                 [(''content-type'', ''application/json''),
                  (''x-tenant-id'', str_or tenant (tenant_id g))]
                 (static_headers g);
          h1 = (case overrides of
                  None \<Rightarrow> h0
                | Some ov \<Rightarrow> if ov = [] then h0 else dict_update h0 ov);
          lowered = set (map (\<lambda>kv. lower (fst kv)) h1);
          h2 = (if str_or (api_key g) [] \<noteq> [] \<and> ''authorization'' \<notin> lowered
                then AList.update ''Authorization'' (''Bearer '' @ str_or (api_key g) []) h1
                else h1);
          h3 = (if str_or (tenant_token g) [] \<noteq> [] \<and> ''x-tenant-token'' \<notin> set (map fst h2)
                then AList.update ''x-tenant-token'' (str_or (tenant_token g) []) h2
                else h2)
      in h3)"

text \<open>
  What the caller supplied for a request: the static headers of the client overlaid
  with the per-call headers, \<^verbatim>\<open>{**static, **(overrides or {})}\<close>.
\<close>

definition the_overrides :: "(string \<times> string) list option \<Rightarrow> (string \<times> string) list" where
  "the_overrides overrides = (case overrides of None \<Rightarrow> [] | Some ov \<Rightarrow> ov)"

definition caller_headers ::
  "'h gateway \<Rightarrow> (string \<times> string) list option \<Rightarrow> (string \<times> string) list" where
  "caller_headers g overrides =
     dict_update (dict_update [] (static_headers g)) (the_overrides overrides)"

text \<open>
  \<^verbatim>\<open>run_tool\<close> and \<^verbatim>\<open>run_plan\<close>: the payload is checked, the request is built with the
  headers, sent, and the decoded answer returned (\<^verbatim>\<open>run_plan\<close> unpacks it into a
  \<^verbatim>\<open>GatewayPlanRunResponse\<close>, which any mapping passes and nothing else does).
\<close>

definition run_tool_request ::
  "'h gateway \<Rightarrow> json \<Rightarrow> string option \<Rightarrow> (string \<times> string) list option \<Rightarrow> error + request" where
  "run_tool_request g payload tenant hdrs =
     (case py_get payload ''tool'' JNull of
        Inl e \<Rightarrow> Inl e
      | Inr t \<Rightarrow>
          if \<not> py_truthy t then Inl ValueError
          else Inr \<lparr>url = ''/v1/tools/run'', body = payload,
                    headers = build_headers g tenant hdrs\<rparr>)"

definition run_tool ::
  "(string \<Rightarrow> json option) \<Rightarrow> (request \<Rightarrow> error + response) \<Rightarrow> 'h gateway \<Rightarrow> json \<Rightarrow>
   string option \<Rightarrow> (string \<times> string) list option \<Rightarrow> error + json" where
  "run_tool loads send g payload tenant hdrs =
     (case run_tool_request g payload tenant hdrs of
        Inl e \<Rightarrow> Inl e
      | Inr rq \<Rightarrow> receive loads send rq)"

definition run_plan_request ::
  "'h gateway \<Rightarrow> json \<Rightarrow> string option \<Rightarrow> (string \<times> string) list option \<Rightarrow> error + request" where
  "run_plan_request g payload tenant hdrs =
     (case py_get payload ''plan'' JNull of
        Inl e \<Rightarrow> Inl e
      | Inr t \<Rightarrow>
          if \<not> py_truthy t then Inl ValueError
          else Inr \<lparr>url = ''/v1/tasks/run'', body = payload,
                    headers = build_headers g tenant hdrs\<rparr>)"

definition run_plan ::
  "(string \<Rightarrow> json option) \<Rightarrow> (request \<Rightarrow> error + response) \<Rightarrow> 'h gateway \<Rightarrow> json \<Rightarrow>
   string option \<Rightarrow> (string \<times> string) list option \<Rightarrow> error + json" where
  "run_plan loads send g payload tenant hdrs =
     (case run_plan_request g payload tenant hdrs of
        Inl e \<Rightarrow> Inl e
      | Inr rq \<Rightarrow>
          (case receive loads send rq of
             Inl e \<Rightarrow> Inl e
           | Inr (JObj d) \<Rightarrow> Inr (JObj d)
           | Inr _ \<Rightarrow> Inl TypeError))"

section \<open>The frames and events of the specification's scenarios\<close>

definition frame_running :: string where
  \<open>frame_running = ''{"event":"status","status":{"status":"running"}}''\<close>

definition frame_overlay :: string where
  \<open>frame_overlay =
     ''{"event":"overlay","overlay":{"source":"vision","data":{"title":"Example"}}}''\<close>

definition frame_success :: string where
  \<open>frame_success = ''{"event":"status","status":{"status":"success"}}''\<close>

definition frame_malformed :: string where
  \<open>frame_malformed = ''{not json''\<close>



definition status_event :: "string \<Rightarrow> json" where
  "status_event s = JObj [(''event'', JStr ''status''), (''status'', JObj [(''status'', JStr s)])]"

definition overlay_event :: json where
  "overlay_event =
     JObj [(''event'', JStr ''overlay''),
           (''overlay'', JObj [(''source'', JStr ''vision''),
                               (''data'', JObj [(''title'', JStr ''Example'')])])]"

text \<open>A socket connected for task \<^verbatim>\<open>t-1\<close>, on which the given frames will arrive.\<close>

definition scenario_socket :: "string list \<Rightarrow> socket" where
  "scenario_socket frames =
     \<lparr>peer = ''ws://127.0.0.1:8801/api/tasks/t-1/stream'', inbox = map Message frames,
      closed = False\<rparr>"

text \<open>
  A console client for the base \<^verbatim>\<open>http://127.0.0.1:0\<close> whose WebSocket class connects to
  anything.
\<close>

definition port_zero_client :: "unit client" where
  "port_zero_client =
     \<lparr>base_url = ''http://127.0.0.1:0'', owns_http = True, http = (),
      websocket_class = Some (\<lambda>u. Inr [])\<rparr>"

text \<open>
  Modelled from the spec: the transport handle that \<^verbatim>\<open>close\<close> releases. For a client that
  creates its handle this is the HTTP client of the library, whose code is not part of
  the repository; the specification says of closing that it "is safe to call multiple
  times and from a state already closed" and that "it releases the transport handle".
  A handle is live or released, and closing it releases it, from either state, without
  raising.
\<close>

datatype handle = Live | Released

definition handle_close :: "handle \<Rightarrow> error + handle" where
  "handle_close h = Inr Released"

text \<open>
  Modelled from the spec: the stream session of the data model, which the SDK does not
  implement (it hands the WebSocket of the library to the caller). A session has "state
  \<open>\<in>\<close> {Connecting, Open, Closed, Failed}", with the transition "any state \<open>\<rightarrow>\<close> Closed on
  explicit close".
\<close>

datatype session_state = SessionConnecting | SessionOpen | SessionClosed | SessionFailed

definition session_close :: "session_state \<Rightarrow> session_state" where
  "session_close st = SessionClosed"

text \<open>A console client and a gateway client that created their own, live, handles.\<close>

definition owning_client :: "handle client" where
  "owning_client =
     \<lparr>base_url = ''http://127.0.0.1:8801'', owns_http = True, http = Live,
      websocket_class = None\<rparr>"

definition owning_gateway :: "handle gateway" where
  "owning_gateway =
     \<lparr>gw_base_url = ''http://127.0.0.1:8710'', tenant_id = ''demo-tenant'',
      gw_owns_http = True, gw_http = Live, api_key = None, tenant_token = None,
      static_headers = []\<rparr>"

text \<open>
  Answers of the service: a plan with a task id, a refusal without one, a body that is
  well-formed but not a mapping, and the answer to a plan that was run.
\<close>

definition body_planned :: string where
  \<open>body_planned = ''{"success":true,"plan":{"plan":{"task_id":"t-1","steps":[]}}}''\<close>

definition body_refused :: string where
  \<open>body_refused = ''{"success":false}''\<close>

definition body_list :: string where
  \<open>body_list = ''[]''\<close>

definition body_run :: string where
  \<open>body_run = ''{"success":true,"task_id":"t-1","stream_path":"/v1/tasks/t-1/stream"}''\<close>

definition plan_answer :: json where
  "plan_answer =
     JObj [(''success'', JBool True),
           (''plan'', JObj [(''plan'', JObj [(''task_id'', JStr ''t-1''), (''steps'', JArr [])])])]"

definition run_answer :: "(string \<times> json) list" where
  "run_answer =
     [(''success'', JBool True), (''task_id'', JStr ''t-1''),
      (''stream_path'', JStr ''/v1/tasks/t-1/stream'')]"

definition chat_payload :: "string \<Rightarrow> json" where
  "chat_payload prompt =
     JObj [(''prompt'', JStr prompt), (''execute'', JBool True), (''capture_context'', JBool True)]"

definition plan_payload :: json where
  "plan_payload = JObj [(''plan'', JObj [(''task_id'', JStr ''t-1'')])]"

definition answers :: "string \<Rightarrow> request \<Rightarrow> error + response" where
  "answers text rq = Inr \<lparr>status_error = False, content = text\<rparr>"

definition demo_gateway :: "(string \<times> string) list \<Rightarrow> unit gateway" where
  "demo_gateway hdrs =
     \<lparr>gw_base_url = ''http://127.0.0.1:8710'', tenant_id = ''demo-tenant'',
      gw_owns_http = True, gw_http = (), api_key = Some ''s3cret'', tenant_token = None,
      static_headers = hdrs\<rparr>"

text \<open>The kind of an event and the status value it carries, as the data model names them.\<close>

definition event_kind :: "json \<Rightarrow> json option" where
  "event_kind ev = (case ev of JObj d \<Rightarrow> map_of d ''event'' | _ \<Rightarrow> None)"

definition status_value :: "json \<Rightarrow> json option" where
  "status_value ev =
     (case ev of
        JObj d \<Rightarrow> (case map_of d ''status'' of Some (JObj st) \<Rightarrow> map_of st ''status'' | _ \<Rightarrow> None)
      | _ \<Rightarrow> None)"

section \<open>Decoding the scenario frames\<close>

lemma loads_running: "json_loads frame_running = Some (status_event ''running'')"
  by code_simp

lemma loads_overlay: "json_loads frame_overlay = Some overlay_event"
  by code_simp

lemma loads_success: "json_loads frame_success = Some (status_event ''success'')"
  by code_simp

lemma loads_malformed: "json_loads frame_malformed = None"
  by code_simp



section \<open>The terminal test\<close>

lemma py_in_True: "py_in v xs = Inr True \<longleftrightarrow> (\<exists>s. v = JStr s \<and> s \<in> set xs)"
  by (cases v) auto

lemma live_companion_terminal_True:
  "live_companion_terminal ev = Inr True \<longleftrightarrow>
     event_kind ev = Some (JStr ''status'') \<and>
     status_value ev \<in> {Some (JStr ''success''), Some (JStr ''failed'')}"
proof (cases ev)
  case (JObj d)
  show ?thesis
  proof (cases "map_of d ''status''")
    case None
    with JObj show ?thesis
      by (auto simp: live_companion_terminal_def event_kind_def status_value_def split: option.splits)
  next
    case (Some st)
    with JObj show ?thesis
      by (cases st)
         (auto simp: live_companion_terminal_def event_kind_def status_value_def py_in_True
               split: option.splits)
  qed
qed (simp_all add: live_companion_terminal_def event_kind_def)

lemma chat_plan_terminal_True:
  "chat_plan_terminal ev = Inr True \<longleftrightarrow>
     event_kind ev = Some (JStr ''status'') \<and>
     status_value ev \<in> {Some (JStr ''success''), Some (JStr ''failed'')}"
proof (cases ev)
  case (JObj d)
  show ?thesis
  proof (cases "map_of d ''status''")
    case None
    with JObj show ?thesis
      by (auto simp: chat_plan_terminal_def event_kind_def status_value_def split: option.splits)
  next
    case (Some st)
    with JObj show ?thesis
      by (cases st)
         (auto simp: chat_plan_terminal_def event_kind_def status_value_def py_in_True
               split: option.splits)
  qed
qed (simp_all add: chat_plan_terminal_def event_kind_def)

lemma other_kind_not_terminal:
  assumes "event_kind (JObj d) \<noteq> Some (JStr ''status'')"
  shows "live_companion_terminal (JObj d) = Inr False \<and> chat_plan_terminal (JObj d) = Inr False"
  using assms
  by (auto simp: live_companion_terminal_def chat_plan_terminal_def event_kind_def
           split: option.splits)

lemma other_status_not_terminal:
  assumes "event_kind ev = Some (JStr ''status'')"
    and "status_value ev = Some (JStr s)"
    and "s \<notin> {''success'', ''failed''}"
  shows "live_companion_terminal ev = Inr False \<and> chat_plan_terminal ev = Inr False"
proof (cases ev)
  case (JObj d)
  with assms(2) obtain st where st: "map_of d ''status'' = Some (JObj st)"
    by (auto simp: status_value_def split: option.splits json.splits)
  with JObj assms show ?thesis
    by (auto simp: live_companion_terminal_def chat_plan_terminal_def event_kind_def
                   status_value_def)
qed (use assms in \<open>simp_all add: event_kind_def\<close>)

text \<open>
  C1 (as the code has it). The test that ends the watching loops, in \<^verbatim>\<open>live_companion.py\<close>
  and in \<^verbatim>\<open>chat_plan.py\<close> alike, answers true exactly when the kind of the event is
  \<^verbatim>\<open>status\<close> and its status value is \<^verbatim>\<open>success\<close> or \<^verbatim>\<open>failed\<close>. It answers false for every
  event of another kind, and for every status event whose value is another string:
  \<^verbatim>\<open>running\<close>, \<^verbatim>\<open>queued\<close>, and also \<^verbatim>\<open>cancelled\<close>.
\<close>

theorem terminal_iff_success_or_failed:
  "(live_companion_terminal ev = Inr True \<longleftrightarrow>
      event_kind ev = Some (JStr ''status'') \<and>
      status_value ev \<in> {Some (JStr ''success''), Some (JStr ''failed'')})
   \<and> (chat_plan_terminal ev = Inr True \<longleftrightarrow>
      event_kind ev = Some (JStr ''status'') \<and>
      status_value ev \<in> {Some (JStr ''success''), Some (JStr ''failed'')})
   \<and> (event_kind (JObj d) \<noteq> Some (JStr ''status'') \<longrightarrow>
      live_companion_terminal (JObj d) = Inr False \<and> chat_plan_terminal (JObj d) = Inr False)
   \<and> (event_kind ev' = Some (JStr ''status'') \<and> status_value ev' = Some (JStr s) \<and>
      s \<notin> {''success'', ''failed''} \<longrightarrow>
      live_companion_terminal ev' = Inr False \<and> chat_plan_terminal ev' = Inr False)"
  using live_companion_terminal_True [of ev] chat_plan_terminal_True [of ev]
    other_kind_not_terminal [of d] other_status_not_terminal [of ev' s]
  by blast

theorem terminal_iff_success_or_failed_witness:
  "live_companion_terminal (status_event ''failed'') = Inr True
   \<and> chat_plan_terminal (status_event ''failed'') = Inr True
   \<and> event_kind overlay_event \<noteq> Some (JStr ''status'')
   \<and> live_companion_terminal overlay_event = Inr False
   \<and> chat_plan_terminal overlay_event = Inr False
   \<and> event_kind (status_event ''queued'') = Some (JStr ''status'')
   \<and> status_value (status_event ''queued'') = Some (JStr ''queued'')
   \<and> ''queued'' \<notin> {''success'', ''failed''}
   \<and> live_companion_terminal (status_event ''queued'') = Inr False
   \<and> chat_plan_terminal (status_event ''queued'') = Inr False"
proof -
  have k: "event_kind (status_event ''failed'') = Some (JStr ''status'')"
    and v: "status_value (status_event ''failed'') \<in> {Some (JStr ''success''), Some (JStr ''failed'')}"
    and o: "event_kind overlay_event \<noteq> Some (JStr ''status'')"
    and q: "event_kind (status_event ''queued'') = Some (JStr ''status'')"
           "status_value (status_event ''queued'') = Some (JStr ''queued'')"
           "''queued'' \<notin> {''success'', ''failed''}"
    by (simp_all add: event_kind_def status_value_def status_event_def overlay_event_def)
  from k v o q
    terminal_iff_success_or_failed
      [of "status_event ''failed''" "[(''event'', JStr ''overlay''),
           (''overlay'', JObj [(''source'', JStr ''vision''),
                               (''data'', JObj [(''title'', JStr ''Example'')])])]"
          "status_event ''queued''" "''queued''"]
  show ?thesis
    unfolding overlay_event_def by blast
qed

theorem cancelled_is_not_terminal:
  "live_companion_terminal (status_event ''cancelled'') = Inr False
   \<and> chat_plan_terminal (status_event ''cancelled'') = Inr False"
  by (simp add: live_companion_terminal_def chat_plan_terminal_def status_event_def)

section \<open>The event stream\<close>

lemma pulls_decoded:
  "map loads fs = map Some evs \<Longrightarrow>
   pulls loads (length fs) Suspended (s\<lparr>inbox := map Message fs @ rest\<rparr>)
     = (map Yield evs, Suspended, s\<lparr>inbox := rest\<rparr>)"
proof (induction fs arbitrary: evs s)
  case Nil
  then show ?case by simp
next
  case (Cons f fs)
  from Cons.prems obtain ev evs' where evs: "evs = ev # evs'"
    and f: "loads f = Some ev" and fs: "map loads fs = map Some evs'"
    by (cases evs) auto
  from Cons.IH [OF fs, of "s\<lparr>inbox := map Message fs @ rest\<rparr>"]
  have "pulls loads (length fs) Suspended (s\<lparr>inbox := map Message fs @ rest\<rparr>)
          = (map Yield evs', Suspended, s\<lparr>inbox := rest\<rparr>)"
    by simp
  with f evs show ?case by simp
qed

lemma scenario_watch:
  "chat_plan_watch json_loads (scenario_socket [frame_running, frame_overlay, frame_success])
     = \<lparr>seen = [status_event ''running'', overlay_event, status_event ''success''],
        printed = [(JStr ''vision'', JObj [(''title'', JStr ''Example'')])],
        ending = Broke,
        sock = (scenario_socket [])\<lparr>closed := True\<rparr>\<rparr>"
  by (simp add: chat_plan_watch_def chat_plan_loop.simps scenario_socket_def ws_close_def
        loads_running loads_overlay loads_success chat_plan_body_def chat_plan_terminal_def
        status_event_def overlay_event_def)

lemma scenario_terminal:
  "chat_plan_terminal (status_event ''running'') = Inr False
   \<and> chat_plan_terminal overlay_event = Inr False
   \<and> chat_plan_terminal (status_event ''success'') = Inr True"
  by (simp add: chat_plan_terminal_def status_event_def overlay_event_def)

text \<open>
  C5 (as the code has it). When every frame the transport emits is well-formed JSON, the
  pulls deliver exactly one decoded event per frame, in the order of the frames: as many
  pulls as there are frames yield the decoded events, one each, in that order, and leave
  the generator suspended on what is still to come. In the three-frame scenario (status
  running, overlay, status success) the watching loop sees exactly these three events in
  that order, the terminal test is false on the first two and true on the third, and the
  loop ends by its \<^verbatim>\<open>break\<close>.
\<close>

theorem stream_delivers_frames_in_order:
  "(map loads fs = map Some evs \<longrightarrow>
      pulls loads (length fs) Suspended (s\<lparr>inbox := map Message fs @ rest\<rparr>)
        = (map Yield evs, Suspended, s\<lparr>inbox := rest\<rparr>))
   \<and> seen (chat_plan_watch json_loads
              (scenario_socket [frame_running, frame_overlay, frame_success]))
       = [status_event ''running'', overlay_event, status_event ''success'']
   \<and> ending (chat_plan_watch json_loads
              (scenario_socket [frame_running, frame_overlay, frame_success])) = Broke
   \<and> chat_plan_terminal (status_event ''running'') = Inr False
   \<and> chat_plan_terminal overlay_event = Inr False
   \<and> chat_plan_terminal (status_event ''success'') = Inr True"
  using pulls_decoded [where loads = loads and fs = fs and evs = evs and s = s and rest = rest]
    scenario_terminal
  by (simp add: scenario_watch)

theorem stream_delivers_frames_in_order_witness:
  "map json_loads [frame_running, frame_overlay, frame_success]
     = map Some [status_event ''running'', overlay_event, status_event ''success'']
   \<and> pulls json_loads 3 Suspended
        (scenario_socket [frame_running, frame_overlay, frame_success])
       = ([Yield (status_event ''running''), Yield overlay_event,
           Yield (status_event ''success'')],
          Suspended, scenario_socket [])"
proof -
  have d: "map json_loads [frame_running, frame_overlay, frame_success]
             = map Some [status_event ''running'', overlay_event, status_event ''success'']"
    by (simp add: loads_running loads_overlay loads_success)
  have s: "(scenario_socket [])\<lparr>inbox := map Message [frame_running, frame_overlay, frame_success] @ []\<rparr>
             = scenario_socket [frame_running, frame_overlay, frame_success]"
    "(scenario_socket [])\<lparr>inbox := []\<rparr> = scenario_socket []"
    by (simp_all add: scenario_socket_def)
  have len: "length [frame_running, frame_overlay, frame_success] = 3"
    by simp
  have ys: "map Yield [status_event ''running'', overlay_event, status_event ''success'']
              = [Yield (status_event ''running''), Yield overlay_event,
                 Yield (status_event ''success'')]"
    by simp
  have "pulls json_loads (length [frame_running, frame_overlay, frame_success]) Suspended
          ((scenario_socket [])\<lparr>inbox := map Message [frame_running, frame_overlay, frame_success] @ []\<rparr>)
        = (map Yield [status_event ''running'', overlay_event, status_event ''success''],
           Suspended, (scenario_socket [])\<lparr>inbox := []\<rparr>)"
    using d stream_delivers_frames_in_order
      [where loads = json_loads and fs = "[frame_running, frame_overlay, frame_success]"
         and evs = "[status_event ''running'', overlay_event, status_event ''success'']"
         and s = "scenario_socket []" and rest = "[]"]
    by blast
  then have "pulls json_loads 3 Suspended
               (scenario_socket [frame_running, frame_overlay, frame_success])
             = ([Yield (status_event ''running''), Yield overlay_event,
                 Yield (status_event ''success'')],
                Suspended, scenario_socket [])"
    by (simp only: s len ys)
  with d show ?thesis by blast
qed

theorem malformed_frame_delivers_nothing:
  "fst (pulls json_loads 2 Suspended (scenario_socket [frame_malformed, frame_success]))
     = [Raise JSONDecodeError, StopIteration]"
  by (simp add: scenario_socket_def loads_malformed numeral_2_eq_2)

text \<open>
  C2 (as the code has it). On a stream with one malformed frame between two well-formed
  ones, the first pull yields the first event, the second pull raises the decoder's
  error (no error event is made up for the frame) and finishes the generator, and the
  third pull reports the end of the iteration: the second well-formed frame stays
  unread in the socket. The generator does not close the socket; its \<^verbatim>\<open>closed\<close> flag is
  as it was.
\<close>

theorem malformed_frame_ends_iteration:
  assumes "loads f1 = Some e1" and "loads bad = None"
  shows "pulls loads 3 Suspended (s\<lparr>inbox := Message f1 # Message bad # Message f2 # rest\<rparr>)
           = ([Yield e1, Raise JSONDecodeError, StopIteration], Closed,
              s\<lparr>inbox := Message f2 # rest\<rparr>)
         \<and> closed (snd (snd (pulls loads 3 Suspended
              (s\<lparr>inbox := Message f1 # Message bad # Message f2 # rest\<rparr>)))) = closed s"
  using assms by (simp add: numeral_3_eq_3)

theorem malformed_frame_ends_iteration_witness:
  "json_loads frame_running = Some (status_event ''running'')
   \<and> json_loads frame_malformed = None
   \<and> pulls json_loads 3 Suspended
        (scenario_socket [frame_running, frame_malformed, frame_success])
       = ([Yield (status_event ''running''), Raise JSONDecodeError, StopIteration], Closed,
          scenario_socket [frame_success])
   \<and> closed (snd (snd (pulls json_loads 3 Suspended
        (scenario_socket [frame_running, frame_malformed, frame_success])))) = False"
proof -
  have s: "(scenario_socket [])\<lparr>inbox := Message frame_running # Message frame_malformed #
              Message frame_success # []\<rparr>
             = scenario_socket [frame_running, frame_malformed, frame_success]"
    "(scenario_socket [])\<lparr>inbox := Message frame_success # []\<rparr> = scenario_socket [frame_success]"
    "closed (scenario_socket []) = False"
    by (simp_all add: scenario_socket_def)
  from malformed_frame_ends_iteration
    [OF loads_running loads_malformed,
     where s = "scenario_socket []" and ?f2.0 = frame_success and rest = "[]"]
  show ?thesis
    unfolding s using loads_running loads_malformed by blast
qed

theorem malformed_frame_stops_the_watch:
  "seen (chat_plan_watch json_loads
           (scenario_socket [frame_running, frame_malformed, frame_success]))
     = [status_event ''running'']
   \<and> ending (chat_plan_watch json_loads
           (scenario_socket [frame_running, frame_malformed, frame_success]))
     = Crashed JSONDecodeError"
  by (simp add: chat_plan_watch_def chat_plan_loop.simps scenario_socket_def ws_close_def
        loads_running loads_malformed chat_plan_body_def chat_plan_terminal_def
        status_event_def)




section \<open>The socket URL\<close>

lemma build_ws_url_parts:
  "build_ws_url URL c path =
     (if scheme (URL (base_url c)) = ''https'' then ''wss'' else ''ws'') @ ''://'' @
     host (URL (base_url c)) @ '':'' @
     str_nat (case port (URL (base_url c)) of
                None \<Rightarrow> if scheme (URL (base_url c)) = ''https'' then 443 else 80
              | Some p \<Rightarrow>
                  if p = 0 then (if scheme (URL (base_url c)) = ''https'' then 443 else 80)
                  else p)
     @ path"
  by (simp add: build_ws_url_def Let_def)

lemma build_ws_url_keeps_port:
  assumes "port (URL (base_url c)) = Some p" and "p \<noteq> 0"
  shows "build_ws_url URL c path =
           (if scheme (URL (base_url c)) = ''https'' then ''wss'' else ''ws'') @ ''://'' @
           host (URL (base_url c)) @ '':'' @ str_nat p @ path"
  using assms by (simp add: build_ws_url_parts del: str_nat.simps)

text \<open>
  C6 (where the code departs from it). For the base \<^verbatim>\<open>http://127.0.0.1:0\<close> the base URL
  has the port 0, and \<^verbatim>\<open>base.port or 80\<close> takes it for a missing port: the stream for
  task \<^verbatim>\<open>t-1\<close> is opened on port 80, not on the port of the base URL. (A port other than
  0 is kept, by \<open>build_ws_url_keeps_port\<close>.)
\<close>

theorem port_zero_is_replaced:
  "port (url_of (base_url port_zero_client)) = Some 0
   \<and> build_ws_url url_of port_zero_client ''/api/tasks/t-1/stream''
       = ''ws://127.0.0.1:80/api/tasks/t-1/stream''
   \<and> map_sum id peer (open_task_stream url_of port_zero_client ''t-1'' False None)
       = Inr ''ws://127.0.0.1:80/api/tasks/t-1/stream''"
  by code_simp

section \<open>Submitting a prompt\<close>

lemma loads_planned: "json_loads body_planned = Some plan_answer"
  by code_simp

lemma loads_refused: "json_loads body_refused = Some (JObj [(''success'', JBool False)])"
  by code_simp

lemma loads_run: "json_loads body_run = Some (JObj run_answer)"
  by code_simp

lemma chat_returns_body:
  assumes "send \<lparr>url = ''/api/chat'', body = payload, headers = []\<rparr> = Inr resp"
    and "\<not> status_error resp" and "loads (content resp) = Some v"
  shows "chat loads send payload = Inr v"
  using assms by (simp add: chat_def post'_def receive_def)

lemma loads_list: "json_loads body_list = Some (JArr [])"
  by code_simp

lemma run_plan_returns_body:
  assumes "run_plan_request g payload tenant hdrs = Inr rq" and "send rq = Inr resp"
    and "\<not> status_error resp" and "loads (content resp) = Some v"
  shows "run_plan loads send g payload tenant hdrs =
           (case v of JObj d \<Rightarrow> Inr (JObj d) | _ \<Rightarrow> Inl TypeError)"
  using assms by (simp add: run_plan_def receive_def split: json.splits)

lemma live_companion_checks_task_id:
  assumes "chat loads send
             (JObj [(''prompt'', JStr prompt), (''execute'', JBool True),
                    (''capture_context'', JBool True)]) = Inr c"
    and "planned_task_id c = Inr t"
  shows "live_companion_submit loads send prompt =
           (if py_truthy t then OpenStream t else SystemExit ''Planner did not return a task id'')"
  using assms by (simp add: live_companion_submit_def)

text \<open>
  C7 (as the code has it). The submitting calls do not look for a task identifier in the
  answer. When the request is answered without an error status and with a well-formed
  body, \<^verbatim>\<open>chat\<close> returns the decoded body as it is, whatever it is, and \<^verbatim>\<open>run_plan\<close>
  returns the decoded body as it is when it is a mapping, with or without a task
  identifier, and raises \<^verbatim>\<open>TypeError\<close> when it is any other value; neither opens a stream.
  The check is the caller's: \<^verbatim>\<open>live_companion.py\<close> reads the task id of the plan and
  exits, before any stream is opened, when it is missing or empty, and goes on to open
  the stream for that task id otherwise.
\<close>

theorem submit_returns_the_answer:
  "(send \<lparr>url = ''/api/chat'', body = payload, headers = []\<rparr> = Inr resp \<and>
      \<not> status_error resp \<and> loads (content resp) = Some v \<longrightarrow>
      chat loads send payload = Inr v)
   \<and> (run_plan_request g plan tenant hdrs = Inr rq \<and> send' rq = Inr resp' \<and>
      \<not> status_error resp' \<and> loads (content resp') = Some v' \<longrightarrow>
      run_plan loads send' g plan tenant hdrs =
        (case v' of JObj d \<Rightarrow> Inr (JObj d) | _ \<Rightarrow> Inl TypeError))
   \<and> (chat loads send''
        (JObj [(''prompt'', JStr prompt), (''execute'', JBool True),
               (''capture_context'', JBool True)]) = Inr c \<and>
      planned_task_id c = Inr t \<longrightarrow>
      live_companion_submit loads send'' prompt =
        (if py_truthy t then OpenStream t else SystemExit ''Planner did not return a task id''))"
  using chat_returns_body [of send payload resp loads v]
    run_plan_returns_body [of g plan tenant hdrs rq send' resp' loads v']
    live_companion_checks_task_id [of loads send'' prompt c t]
  by blast

theorem submit_returns_the_answer_witness:
  "chat json_loads (answers body_planned) (chat_payload ''navigate to example.com'')
     = Inr plan_answer
   \<and> run_plan json_loads (answers body_run) (demo_gateway []) plan_payload None None
       = Inr (JObj run_answer)
   \<and> run_plan json_loads (answers body_list) (demo_gateway []) plan_payload None None
       = Inl TypeError
   \<and> planned_task_id plan_answer = Inr (JStr ''t-1'')
   \<and> live_companion_submit json_loads (answers body_planned) ''navigate to example.com''
       = OpenStream (JStr ''t-1'')"
proof -
  have a: "answers body_planned
             \<lparr>url = ''/api/chat'', body = chat_payload ''navigate to example.com'', headers = []\<rparr>
           = Inr \<lparr>status_error = False, content = body_planned\<rparr>"
    and b: "\<not> status_error \<lparr>status_error = False, content = body_planned\<rparr>"
    and c: "json_loads (content \<lparr>status_error = False, content = body_planned\<rparr>) = Some plan_answer"
    by (simp_all add: answers_def loads_planned)
  have d: "run_plan_request (demo_gateway []) plan_payload None None
             = Inr \<lparr>url = ''/v1/tasks/run'', body = plan_payload,
                    headers = build_headers (demo_gateway []) None None\<rparr>"
    by (simp add: run_plan_request_def plan_payload_def)
  have e: "answers body_run
             \<lparr>url = ''/v1/tasks/run'', body = plan_payload,
              headers = build_headers (demo_gateway []) None None\<rparr>
           = Inr \<lparr>status_error = False, content = body_run\<rparr>"
    and f: "\<not> status_error \<lparr>status_error = False, content = body_run\<rparr>"
    and g: "json_loads (content \<lparr>status_error = False, content = body_run\<rparr>)
              = Some (JObj run_answer)"
    by (simp_all add: answers_def loads_run)
  have e': "answers body_list
             \<lparr>url = ''/v1/tasks/run'', body = plan_payload,
              headers = build_headers (demo_gateway []) None None\<rparr>
           = Inr \<lparr>status_error = False, content = body_list\<rparr>"
    and f': "\<not> status_error \<lparr>status_error = False, content = body_list\<rparr>"
    and g': "json_loads (content \<lparr>status_error = False, content = body_list\<rparr>)
              = Some (JArr [])"
    by (simp_all add: answers_def loads_list)
  have t: "planned_task_id plan_answer = Inr (JStr ''t-1'')"
    by (simp add: planned_task_id_def plan_answer_def)
  have y: "py_truthy (JStr ''t-1'')"
    by simp
  note inst = submit_returns_the_answer
    [where send = "answers body_planned" and payload = "chat_payload ''navigate to example.com''"
       and resp = "\<lparr>status_error = False, content = body_planned\<rparr>"
       and loads = json_loads and v = plan_answer
       and g = "demo_gateway []" and plan = plan_payload and tenant = None and hdrs = None
       and rq = "\<lparr>url = ''/v1/tasks/run'', body = plan_payload,
                   headers = build_headers (demo_gateway []) None None\<rparr>"
       and send' = "answers body_run"
       and resp' = "\<lparr>status_error = False, content = body_run\<rparr>" and v' = "JObj run_answer"
       and send'' = "answers body_planned" and prompt = "''navigate to example.com''"
       and c = plan_answer and t = "JStr ''t-1''"]
  note inst' = submit_returns_the_answer
    [where loads = json_loads
       and g = "demo_gateway []" and plan = plan_payload and tenant = None and hdrs = None
       and rq = "\<lparr>url = ''/v1/tasks/run'', body = plan_payload,
                   headers = build_headers (demo_gateway []) None None\<rparr>"
       and send' = "answers body_list"
       and resp' = "\<lparr>status_error = False, content = body_list\<rparr>" and v' = "JArr []"]
  have ch: "chat json_loads (answers body_planned) (chat_payload ''navigate to example.com'')
              = Inr plan_answer"
    using inst a b c by blast
  have "run_plan json_loads (answers body_run) (demo_gateway []) plan_payload None None
          = (case JObj run_answer of JObj d \<Rightarrow> Inr (JObj d) | _ \<Rightarrow> Inl TypeError)"
    using inst d e f g by blast
  then have rp: "run_plan json_loads (answers body_run) (demo_gateway []) plan_payload None None
              = Inr (JObj run_answer)"
    by simp
  have "run_plan json_loads (answers body_list) (demo_gateway []) plan_payload None None
          = (case JArr [] of JObj d \<Rightarrow> Inr (JObj d) | _ \<Rightarrow> Inl TypeError)"
    using inst' d e' f' g' by blast
  then have rl: "run_plan json_loads (answers body_list) (demo_gateway []) plan_payload None None
              = Inl TypeError"
    by simp
  have "live_companion_submit json_loads (answers body_planned) ''navigate to example.com''
          = (if py_truthy (JStr ''t-1'') then OpenStream (JStr ''t-1'')
             else SystemExit ''Planner did not return a task id'')"
    using inst ch [unfolded chat_payload_def] t by blast
  with y have "live_companion_submit json_loads (answers body_planned) ''navigate to example.com''
          = OpenStream (JStr ''t-1'')"
    by (simp only: if_True)
  with ch rp rl t show ?thesis by blast
qed

theorem submit_accepts_a_refusal:
  "chat json_loads (answers body_refused) (chat_payload ''navigate to example.com'')
     = Inr (JObj [(''success'', JBool False)])
   \<and> run_plan json_loads (answers body_refused) (demo_gateway []) plan_payload None None
       = Inr (JObj [(''success'', JBool False)])
   \<and> live_companion_submit json_loads (answers body_refused) ''navigate to example.com''
       = SystemExit ''Planner did not return a task id''"
  by (simp add: chat_def post'_def receive_def answers_def loads_refused run_plan_def
        run_plan_request_def plan_payload_def live_companion_submit_def planned_task_id_def)

section \<open>Closing a client\<close>

lemma close_released:
  "close handle_close c = Inr (if owns_http c then c\<lparr>http := Released\<rparr> else c)"
  by (simp add: close_def handle_close_def)

lemma gateway_close_released:
  "gateway_close handle_close g = Inr (if gw_owns_http g then g\<lparr>gw_http := Released\<rparr> else g)"
  by (simp add: gateway_close_def handle_close_def)

lemma close_twice:
  assumes "close handle_close c = Inr c'"
  shows "close handle_close c' = Inr c'"
proof -
  from assms have c': "c' = (if owns_http c then c\<lparr>http := Released\<rparr> else c)"
    by (simp add: close_released)
  show ?thesis
    unfolding close_released c' by simp
qed

lemma gateway_close_twice:
  assumes "gateway_close handle_close g = Inr g'"
  shows "gateway_close handle_close g' = Inr g'"
proof -
  from assms have g': "g' = (if gw_owns_http g then g\<lparr>gw_http := Released\<rparr> else g)"
    by (simp add: gateway_close_released)
  show ?thesis
    unfolding gateway_close_released g' by simp
qed

lemma close_not_owned: "\<not> owns_http c \<Longrightarrow> close http_close c = Inr c"
  by (simp add: close_def)

lemma second_close_is_the_handles:
  assumes "owns_http c" and "close http_close c = Inr c'"
  shows "close http_close c' = Inr c' \<longleftrightarrow> http_close (http c') = Inr (http c')"
proof -
  from assms obtain h where h: "http_close (http c) = Inr h" and c': "c' = c\<lparr>http := h\<rparr>"
    by (auto simp: close_def split: sum.splits)
  have eq: "c\<lparr>http := h'\<rparr> = c\<lparr>http := h\<rparr> \<longleftrightarrow> h' = h" for h'
    by (metis client.select_convs(3) client.surjective client.update_convs(3))
  show ?thesis
    using assms(1) by (cases "http_close h") (simp_all add: close_def c' eq)
qed

text \<open>
  C8. Closing is idempotent. \<^verbatim>\<open>close\<close> always succeeds: it releases the transport handle
  when the client created it, leaves the handle alone when the client was given it, and
  changes nothing else. A second \<^verbatim>\<open>close\<close>, or a \<^verbatim>\<open>close\<close> from a state already closed,
  succeeds as well and leaves the state identical to the state after the first; this
  holds for the console client, for the gateway client, and for a session, whose
  \<^verbatim>\<open>close\<close> takes it to the closed state from any state. The client keeps no state of
  its own about being closed: for whatever the transport handle does when it is closed,
  a client that was given its handle is returned as it is, and for a client that
  created its handle the second \<^verbatim>\<open>close\<close> succeeds and changes nothing exactly when
  closing the released handle again succeeds and changes nothing.
\<close>

theorem close_is_idempotent:
  "close handle_close c = Inr (if owns_http c then c\<lparr>http := Released\<rparr> else c)
   \<and> (close handle_close c = Inr c' \<longrightarrow> close handle_close c' = Inr c')
   \<and> gateway_close handle_close g
       = Inr (if gw_owns_http g then g\<lparr>gw_http := Released\<rparr> else g)
   \<and> (gateway_close handle_close g = Inr g' \<longrightarrow> gateway_close handle_close g' = Inr g')
   \<and> session_close st = SessionClosed
   \<and> session_close (session_close st) = session_close st
   \<and> (\<not> owns_http c0 \<longrightarrow> close http_close c0 = Inr c0)
   \<and> (owns_http c1 \<and> close http_close c1 = Inr c2 \<longrightarrow>
        (close http_close c2 = Inr c2 \<longleftrightarrow> http_close (http c2) = Inr (http c2)))"
  using close_released [of c] close_twice [of c c'] gateway_close_released [of g]
    gateway_close_twice [of g g'] close_not_owned [of c0 http_close]
    second_close_is_the_handles [of c1 http_close c2]
  by (simp add: session_close_def)

theorem close_is_idempotent_witness:
  "close handle_close owning_client = Inr (owning_client\<lparr>http := Released\<rparr>)
   \<and> close handle_close (owning_client\<lparr>http := Released\<rparr>)
       = Inr (owning_client\<lparr>http := Released\<rparr>)
   \<and> gateway_close handle_close owning_gateway = Inr (owning_gateway\<lparr>gw_http := Released\<rparr>)
   \<and> gateway_close handle_close (owning_gateway\<lparr>gw_http := Released\<rparr>)
       = Inr (owning_gateway\<lparr>gw_http := Released\<rparr>)
   \<and> \<not> owns_http (owning_client\<lparr>owns_http := False\<rparr>)
   \<and> close handle_close (owning_client\<lparr>owns_http := False\<rparr>)
       = Inr (owning_client\<lparr>owns_http := False\<rparr>)
   \<and> owns_http owning_client
   \<and> handle_close (http (owning_client\<lparr>http := Released\<rparr>))
       = Inr (http (owning_client\<lparr>http := Released\<rparr>))"
proof -
  have o: "owns_http owning_client" "gw_owns_http owning_gateway"
    "\<not> owns_http (owning_client\<lparr>owns_http := False\<rparr>)"
    by (simp_all add: owning_client_def owning_gateway_def)
  note inst = close_is_idempotent
    [where c = owning_client and c' = "owning_client\<lparr>http := Released\<rparr>"
       and g = owning_gateway and g' = "owning_gateway\<lparr>gw_http := Released\<rparr>"
       and ?c0.0 = "owning_client\<lparr>owns_http := False\<rparr>" and http_close = handle_close
       and ?c1.0 = owning_client and ?c2.0 = "owning_client\<lparr>http := Released\<rparr>"]
  have a: "close handle_close owning_client = Inr (owning_client\<lparr>http := Released\<rparr>)"
    using inst o(1) by simp
  have b: "close handle_close (owning_client\<lparr>http := Released\<rparr>)
             = Inr (owning_client\<lparr>http := Released\<rparr>)"
    using inst a by blast
  have c: "gateway_close handle_close owning_gateway
             = Inr (owning_gateway\<lparr>gw_http := Released\<rparr>)"
    using inst o(2) by simp
  have d: "gateway_close handle_close (owning_gateway\<lparr>gw_http := Released\<rparr>)
             = Inr (owning_gateway\<lparr>gw_http := Released\<rparr>)"
    using inst c by blast
  have e: "close handle_close (owning_client\<lparr>owns_http := False\<rparr>)
             = Inr (owning_client\<lparr>owns_http := False\<rparr>)"
    using inst o(3) by blast
  have f: "handle_close (http (owning_client\<lparr>http := Released\<rparr>))
             = Inr (http (owning_client\<lparr>http := Released\<rparr>))"
    using inst o(1) a b by blast
  from a b c d o e f show ?thesis by blast
qed

section \<open>The headers of a gateway request\<close>

lemma map_of_dict_update:
  "map_of (dict_update d kvs) k = (case map_of (rev kvs) k of None \<Rightarrow> map_of d k | Some v \<Rightarrow> Some v)"
  by (induction d kvs rule: dict_update.induct)
     (auto simp: update_conv' map_add_def split: option.splits)

lemma keys_dict_update: "fst ` set (dict_update d kvs) = fst ` set d \<union> fst ` set kvs"
  by (induction d kvs rule: dict_update.induct) (auto simp: dom_update)

lemma map_of_rev_None: "map_of (rev kvs) k = None \<longleftrightarrow> k \<notin> fst ` set kvs"
  by (simp add: map_of_eq_None_iff)

lemma map_of_rev_distinct: "distinct (map fst kvs) \<Longrightarrow> map_of (rev kvs) = map_of kvs"
  by (rule map_of_inject_set [THEN iffD2]) (simp_all add: distinct_rev rev_map [symmetric])

lemma lower_names:
  "lower ''content-type'' = ''content-type''"
  "lower ''x-tenant-id'' = ''x-tenant-id''"
  "lower ''x-tenant-token'' = ''x-tenant-token''"
  "lower ''Authorization'' = ''authorization''"
  by code_simp+

lemma build_headers_lookup:
  "map_of (build_headers g tid ov) k =
     (let h1 = dict_update
                 (dict_update [(''content-type'', ''application/json''),
                               (''x-tenant-id'', str_or tid (tenant_id g))] (static_headers g))
                 (the_overrides ov);
          auth = (str_or (api_key g) [] \<noteq> [] \<and> ''authorization'' \<notin> lower ` fst ` set h1);
          tok = (str_or (tenant_token g) [] \<noteq> [] \<and> ''x-tenant-token'' \<notin> fst ` set h1)
      in if tok \<and> k = ''x-tenant-token'' then Some (str_or (tenant_token g) [])
         else if auth \<and> k = ''Authorization'' then Some (''Bearer '' @ str_or (api_key g) [])
         else map_of h1 k)"
proof -
  define h0 where "h0 = dict_update [(''content-type'', ''application/json''),
                               (''x-tenant-id'', str_or tid (tenant_id g))] (static_headers g)"
  define h1 where "h1 = dict_update h0 (the_overrides ov)"
  define auth where
    "auth = (str_or (api_key g) [] \<noteq> [] \<and> ''authorization'' \<notin> lower ` fst ` set h1)"
  define h2 where
    "h2 = (if auth then AList.update ''Authorization'' (''Bearer '' @ str_or (api_key g) []) h1
           else h1)"
  define tok where
    "tok = (str_or (tenant_token g) [] \<noteq> [] \<and> ''x-tenant-token'' \<notin> fst ` set h1)"
  have ov: "(case ov of None \<Rightarrow> h0 | Some l \<Rightarrow> if l = [] then h0 else dict_update h0 l) = h1"
    by (cases ov) (simp_all add: h1_def the_overrides_def)
  have low: "set (map (\<lambda>kv. lower (fst kv)) h1) = lower ` fst ` set h1"
    by (simp add: image_image)
  have ne: "''x-tenant-token'' \<noteq> ''Authorization''"
    by simp
  have keys: "''x-tenant-token'' \<in> set (map fst h2) \<longleftrightarrow> ''x-tenant-token'' \<in> fst ` set h1"
    using ne by (simp add: h2_def dom_update del: set_map)
      (simp add: dom_update)
  have bh: "build_headers g tid ov =
              (if tok then AList.update ''x-tenant-token'' (str_or (tenant_token g) []) h2 else h2)"
    unfolding build_headers_def Let_def h0_def [symmetric] ov low auth_def [symmetric]
      h2_def [symmetric] keys tok_def [symmetric]
    by (rule refl)
  have "map_of (build_headers g tid ov) k =
          (if tok \<and> k = ''x-tenant-token'' then Some (str_or (tenant_token g) [])
           else if auth \<and> k = ''Authorization'' then Some (''Bearer '' @ str_or (api_key g) [])
           else map_of h1 k)"
    unfolding bh h2_def using ne by (simp add: update_conv')
  then show ?thesis
    unfolding Let_def h1_def h0_def auth_def tok_def .
qed

lemma str_or_nonempty: "b \<noteq> [] \<Longrightarrow> str_or a b \<noteq> []"
  by (simp add: str_or_def split: option.splits)

lemma tenant_header:
  assumes "''x-tenant-id'' \<notin> fst ` set (static_headers g)"
    and "''x-tenant-id'' \<notin> fst ` set (the_overrides ov)"
  shows "map_of (build_headers g tid ov) ''x-tenant-id'' = Some (str_or tid (tenant_id g))"
  using assms
  by (simp add: build_headers_lookup Let_def map_of_dict_update map_of_rev_None [THEN iffD2])

lemma caller_lookup:
  "map_of (caller_headers g ov) k =
     (case map_of (rev (the_overrides ov)) k of
        None \<Rightarrow> map_of (rev (static_headers g)) k
      | Some v \<Rightarrow> Some v)"
  by (simp add: caller_headers_def map_of_dict_update split: option.splits)

lemma caller_keys:
  "fst ` set (caller_headers g ov) = fst ` set (static_headers g) \<union> fst ` set (the_overrides ov)"
  by (simp add: caller_headers_def keys_dict_update)

lemma authorization_kept:
  assumes "k \<in> fst ` set (caller_headers g ov)" and "lower k = ''authorization''"
    and "lower k' = ''authorization''"
  shows "map_of (build_headers g tid ov) k' = map_of (caller_headers g ov) k'"
proof -
  have in_lowered: "''authorization'' \<in> lower ` fst ` set
      (dict_update (dict_update [(''content-type'', ''application/json''),
                                 (''x-tenant-id'', str_or tid (tenant_id g))] (static_headers g))
         (the_overrides ov))"
    using assms(1,2) by (auto simp: keys_dict_update caller_keys intro: rev_image_eqI)
  have ne: "k' \<noteq> ''x-tenant-token''" "k' \<noteq> ''content-type''" "k' \<noteq> ''x-tenant-id''"
    using assms(3) lower_names by auto
  show ?thesis
    using in_lowered ne
    by (simp add: build_headers_lookup Let_def map_of_dict_update caller_lookup
             split: option.splits)
qed

lemma authorization_added:
  assumes "''authorization'' \<notin> lower ` fst ` set (caller_headers g ov)"
    and "api_key g = Some a" and "a \<noteq> []"
  shows "map_of (build_headers g tid ov) ''Authorization'' = Some (''Bearer '' @ a)"
proof -
  have "''authorization'' \<notin> lower ` fst ` set
      (dict_update (dict_update [(''content-type'', ''application/json''),
                                 (''x-tenant-id'', str_or tid (tenant_id g))] (static_headers g))
         (the_overrides ov))"
    using assms(1) lower_names by (auto simp: keys_dict_update caller_keys)
  with assms(2,3) show ?thesis
    by (simp add: build_headers_lookup Let_def str_or_def)
qed

lemma override_wins:
  assumes "distinct (map fst ov)" and "map_of ov k = Some v"
  shows "map_of (build_headers g tid (Some ov)) k = Some v"
proof -
  define h1 where
    "h1 = dict_update
            (dict_update [(''content-type'', ''application/json''),
                          (''x-tenant-id'', str_or tid (tenant_id g))] (static_headers g))
            (the_overrides (Some ov))"
  have k: "k \<in> fst ` set ov"
    using assms(2) by (force dest: map_of_SomeD)
  then have keys: "k \<in> fst ` set h1"
    by (simp add: h1_def keys_dict_update the_overrides_def)
  have "map_of (rev ov) k = Some v"
    using assms by (simp add: map_of_rev_distinct)
  then have val: "map_of h1 k = Some v"
    by (simp add: h1_def map_of_dict_update the_overrides_def)
  have tok: "k = ''x-tenant-token'' \<Longrightarrow> ''x-tenant-token'' \<in> fst ` set h1"
    using keys by simp
  have auth: "k = ''Authorization'' \<Longrightarrow> ''authorization'' \<in> lower ` fst ` set h1"
    using keys lower_names(4) by (metis image_eqI)
  show ?thesis
    unfolding build_headers_lookup Let_def h1_def [symmetric]
    using val tok auth by auto
qed

lemma request_headers:
  assumes "run_tool_request g payload tid ov = Inr rq \<or> run_plan_request g payload tid ov = Inr rq"
  shows "headers rq = build_headers g tid ov"
  using assms
  by (auto simp: run_tool_request_def run_plan_request_def split: sum.splits if_splits)

text \<open>
  C9 (as the code has it). The gateway client keeps its tenant identifier non-empty: the
  constructor raises \<^verbatim>\<open>ValueError\<close> on an empty \<^verbatim>\<open>tenant_id\<close> and stores any other as
  given; \<^verbatim>\<open>set_tenant\<close> raises \<^verbatim>\<open>ValueError\<close> on an empty \<^verbatim>\<open>tenant_id\<close> and leaves the
  client as it was; \<^verbatim>\<open>set_tenant\<close>, \<^verbatim>\<open>configure_auth\<close> and \<^verbatim>\<open>close\<close> keep a non-empty tenant
  non-empty. A request built by \<^verbatim>\<open>run_tool\<close> or \<^verbatim>\<open>run_plan\<close> carries the header
  \<^verbatim>\<open>x-tenant-id\<close> with the per-call tenant when one is given and not empty, and with the
  stored tenant otherwise, a non-empty value - provided that neither the static headers
  nor the per-call headers name \<^verbatim>\<open>x-tenant-id\<close> themselves.
\<close>

theorem tenant_is_never_empty:
  "map_sum id tenant_id (gateway_init new_http tenant base h key token hdrs)
     = (if tenant = [] then Inl ValueError else Inr tenant)
   \<and> set_tenant g [] = (Some ValueError, g)
   \<and> (tenant_id g \<noteq> [] \<longrightarrow>
        tenant_id (snd (set_tenant g t)) \<noteq> [] \<and> tenant_id (configure_auth g key' token') \<noteq> [])
   \<and> (tenant_id g \<noteq> [] \<and> gateway_close http_close g = Inr g' \<longrightarrow> tenant_id g' \<noteq> [])
   \<and> (tenant_id g \<noteq> [] \<and> ''x-tenant-id'' \<notin> fst ` set (static_headers g) \<and>
      ''x-tenant-id'' \<notin> fst ` set (the_overrides ov) \<and>
      (run_tool_request g payload tid ov = Inr rq \<or> run_plan_request g payload tid ov = Inr rq)
      \<longrightarrow> map_of (headers rq) ''x-tenant-id'' = Some (str_or tid (tenant_id g)) \<and>
          str_or tid (tenant_id g) \<noteq> [])"
proof -
  have a: "map_sum id tenant_id (gateway_init new_http tenant base h key token hdrs)
             = (if tenant = [] then Inl ValueError else Inr tenant)"
    by (simp add: gateway_init_def)
  have b: "set_tenant g [] = (Some ValueError, g)"
    by (simp add: set_tenant_def)
  have c: "tenant_id g \<noteq> [] \<longrightarrow>
        tenant_id (snd (set_tenant g t)) \<noteq> [] \<and> tenant_id (configure_auth g key' token') \<noteq> []"
    by (simp add: set_tenant_def configure_auth_def)
  have d: "tenant_id g \<noteq> [] \<and> gateway_close http_close g = Inr g' \<longrightarrow> tenant_id g' \<noteq> []"
    by (auto simp: gateway_close_def split: if_splits sum.splits)
  have e: "tenant_id g \<noteq> [] \<and> ''x-tenant-id'' \<notin> fst ` set (static_headers g) \<and>
      ''x-tenant-id'' \<notin> fst ` set (the_overrides ov) \<and>
      (run_tool_request g payload tid ov = Inr rq \<or> run_plan_request g payload tid ov = Inr rq)
      \<longrightarrow> map_of (headers rq) ''x-tenant-id'' = Some (str_or tid (tenant_id g)) \<and>
          str_or tid (tenant_id g) \<noteq> []"
    using request_headers [of g payload tid ov rq] tenant_header [of g ov tid]
      str_or_nonempty [of "tenant_id g" tid]
    by metis
  from a b c d e show ?thesis by blast
qed

theorem tenant_is_never_empty_witness:
  "tenant_id (demo_gateway []) \<noteq> []
   \<and> ''x-tenant-id'' \<notin> fst ` set (static_headers (demo_gateway []))
   \<and> ''x-tenant-id'' \<notin> fst ` set (the_overrides (Some [(''x-request-id'', ''r-1'')]))
   \<and> run_tool_request (demo_gateway []) (JObj [(''tool'', JStr ''navigate'')]) None
        (Some [(''x-request-id'', ''r-1'')])
       = Inr \<lparr>url = ''/v1/tools/run'', body = JObj [(''tool'', JStr ''navigate'')],
              headers = build_headers (demo_gateway []) None (Some [(''x-request-id'', ''r-1'')])\<rparr>
   \<and> map_of (build_headers (demo_gateway []) None (Some [(''x-request-id'', ''r-1'')]))
        ''x-tenant-id'' = Some ''demo-tenant''
   \<and> tenant_id (snd (set_tenant (demo_gateway []) ''other'')) \<noteq> []
   \<and> gateway_close (\<lambda>u. Inr ()) (demo_gateway []) = Inr (demo_gateway [])
   \<and> tenant_id (demo_gateway []) = ''demo-tenant''"
proof -
  have a: "tenant_id (demo_gateway []) \<noteq> []"
    and b: "''x-tenant-id'' \<notin> fst ` set (static_headers (demo_gateway []))"
    and c: "''x-tenant-id'' \<notin> fst ` set (the_overrides (Some [(''x-request-id'', ''r-1'')]))"
    and d: "run_tool_request (demo_gateway []) (JObj [(''tool'', JStr ''navigate'')]) None
              (Some [(''x-request-id'', ''r-1'')])
            = Inr \<lparr>url = ''/v1/tools/run'', body = JObj [(''tool'', JStr ''navigate'')],
                   headers = build_headers (demo_gateway []) None (Some [(''x-request-id'', ''r-1'')])\<rparr>"
    and e: "gateway_close (\<lambda>u. Inr ()) (demo_gateway []) = Inr (demo_gateway [])"
    and f: "str_or None (tenant_id (demo_gateway [])) = ''demo-tenant''"
    and g: "tenant_id (demo_gateway []) = ''demo-tenant''"
    by (simp_all add: demo_gateway_def the_overrides_def run_tool_request_def gateway_close_def
          str_or_def)
  note inst = tenant_is_never_empty
    [where g = "demo_gateway []" and ov = "Some [(''x-request-id'', ''r-1'')]" and tid = None
       and payload = "JObj [(''tool'', JStr ''navigate'')]"
       and rq = "\<lparr>url = ''/v1/tools/run'', body = JObj [(''tool'', JStr ''navigate'')],
                   headers = build_headers (demo_gateway []) None (Some [(''x-request-id'', ''r-1'')])\<rparr>"
       and t = "''other''" and http_close = "\<lambda>u. Inr ()" and g' = "demo_gateway []"]
  have h: "map_of (headers \<lparr>url = ''/v1/tools/run'', body = JObj [(''tool'', JStr ''navigate'')],
                   headers = build_headers (demo_gateway []) None (Some [(''x-request-id'', ''r-1'')])\<rparr>)
             ''x-tenant-id'' = Some (str_or None (tenant_id (demo_gateway [])))"
    using inst a b c d by blast
  then have h': "map_of (build_headers (demo_gateway []) None (Some [(''x-request-id'', ''r-1'')]))
             ''x-tenant-id'' = Some ''demo-tenant''"
    by (simp only: f request.simps)
  have i: "tenant_id (snd (set_tenant (demo_gateway []) ''other'')) \<noteq> []"
    using inst a by blast
  from a b c d h' i e g show ?thesis by blast
qed

theorem static_header_replaces_tenant:
  "gateway_init (\<lambda>u. ()) ''demo-tenant'' ''http://127.0.0.1:8710/'' None (Some ''s3cret'') None
     (Some [(''x-tenant-id'', '''')])
     = Inr (demo_gateway [(''x-tenant-id'', '''')])
   \<and> run_tool_request (demo_gateway [(''x-tenant-id'', '''')])
        (JObj [(''tool'', JStr ''navigate'')]) None None
       = Inr \<lparr>url = ''/v1/tools/run'', body = JObj [(''tool'', JStr ''navigate'')],
              headers = [(''content-type'', ''application/json''), (''x-tenant-id'', ''''),
                         (''Authorization'', ''Bearer s3cret'')]\<rparr>"
  by code_simp

text \<open>
  C10. When the static headers or the per-call headers hold a key that is
  \<^verbatim>\<open>authorization\<close> up to case, the built headers hold, under every key that is
  \<^verbatim>\<open>authorization\<close> up to case, exactly what the caller supplied: the API key is not
  added and the caller's value is kept. Otherwise, when an API key is configured (one
  that is not empty), the built headers hold \<^verbatim>\<open>Authorization\<close> with \<^verbatim>\<open>Bearer\<close>, a blank and
  the API key. And a per-call header always has its value in the built headers,
  whatever the static headers say.
\<close>

theorem authorization_header:
  "(k \<in> fst ` set (caller_headers g ov) \<and> lower k = ''authorization'' \<and>
      lower k' = ''authorization'' \<longrightarrow>
      map_of (build_headers g tid ov) k' = map_of (caller_headers g ov) k')
   \<and> (''authorization'' \<notin> lower ` fst ` set (caller_headers g ov) \<and> api_key g = Some a \<and>
      a \<noteq> [] \<longrightarrow>
      map_of (build_headers g tid ov) ''Authorization'' = Some (''Bearer '' @ a))
   \<and> (distinct (map fst l) \<and> map_of l k'' = Some v \<longrightarrow>
      map_of (build_headers g tid (Some l)) k'' = Some v)"
  using authorization_kept [of k g ov k' tid] authorization_added [of g ov a tid]
    override_wins [of l k'' v g tid]
  by blast

theorem authorization_header_witness:
  "''AUTHORIZATION'' \<in> fst ` set (caller_headers (demo_gateway [(''AUTHORIZATION'', ''Basic abc'')]) None)
   \<and> lower ''AUTHORIZATION'' = ''authorization''
   \<and> map_of (build_headers (demo_gateway [(''AUTHORIZATION'', ''Basic abc'')]) None None)
        ''AUTHORIZATION'' = Some ''Basic abc''
   \<and> map_of (build_headers (demo_gateway [(''AUTHORIZATION'', ''Basic abc'')]) None None)
        ''Authorization'' = None
   \<and> ''authorization'' \<notin> lower ` fst ` set (caller_headers (demo_gateway []) None)
   \<and> api_key (demo_gateway []) = Some ''s3cret''
   \<and> map_of (build_headers (demo_gateway []) None None) ''Authorization''
       = Some ''Bearer s3cret''
   \<and> map_of (build_headers (demo_gateway [(''accept'', ''text/html'')]) None
                (Some [(''accept'', ''application/json'')])) ''accept''
       = Some ''application/json''"
proof -
  let ?g = "demo_gateway [(''AUTHORIZATION'', ''Basic abc'')]"
  have a: "''AUTHORIZATION'' \<in> fst ` set (caller_headers ?g None)"
    and b: "lower ''AUTHORIZATION'' = ''authorization''"
    and b': "lower ''Authorization'' = ''authorization''"
    and c: "map_of (caller_headers ?g None) ''AUTHORIZATION'' = Some ''Basic abc''"
    and c': "map_of (caller_headers ?g None) ''Authorization'' = None"
    and d: "''authorization'' \<notin> lower ` fst ` set (caller_headers (demo_gateway []) None)"
    and e: "api_key (demo_gateway []) = Some ''s3cret''"
    and f: "''s3cret'' \<noteq> []"
    and g: "distinct (map fst [(''accept'', ''application/json'')])"
    and h: "map_of [(''accept'', ''application/json'')] ''accept'' = Some ''application/json''"
    by code_simp+
  have 1: "map_of (build_headers ?g None None) ''AUTHORIZATION'' = Some ''Basic abc''"
    using authorization_header
      [where g = ?g and ov = None and k = "''AUTHORIZATION''" and k' = "''AUTHORIZATION''"
         and tid = None] a b c
    by simp
  have 2: "map_of (build_headers ?g None None) ''Authorization'' = None"
    using authorization_header
      [where g = ?g and ov = None and k = "''AUTHORIZATION''" and k' = "''Authorization''"
         and tid = None] a b b' c'
    by simp
  have 3: "map_of (build_headers (demo_gateway []) None None) ''Authorization''
             = Some (''Bearer '' @ ''s3cret'')"
    using authorization_header
      [where g = "demo_gateway []" and ov = None and a = "''s3cret''" and tid = None] d e f
    by blast
  have 4: "map_of (build_headers (demo_gateway [(''accept'', ''text/html'')]) None
                (Some [(''accept'', ''application/json'')])) ''accept''
             = Some ''application/json''"
    using authorization_header
      [where g = "demo_gateway [(''accept'', ''text/html'')]" and tid = None
         and l = "[(''accept'', ''application/json'')]" and k'' = "''accept''"
         and v = "''application/json''"] g h
    by blast
  from a b 1 2 d e 3 4 show ?thesis by simp
qed

end
